theory Spec2Isabelle
  imports Complex_Main
begin

section \<open>Venue geocoding: latlong/geocode_json.py and latlong/find.py\<close>

text \<open>
  The two scripts resolve an attraction name and an optional city to coordinates through
  three provider tiers (find place, text search, geocoding). This theory embeds their
  helper functions, their provider adapters and their two resolvers, and states the
  properties of the specification over them.

  Conventions of the embedding.
  \<^item> Text is 8-bit: a \<open>char\<close> is one character, with a code point below 256.
    Whitespace is what \<open>str.strip()\<close> removes among these characters, a digit is what
    \<open>\d\<close> matches among them (0 to 9), and \<open>str.lower()\<close> is modelled on all of them.
  \<^item> A provider response is whatever \<open>r.json()\<close> parses: a value of type \<open>json\<close>.
    Python reads it with \<open>.get\<close>, \<open>[key]\<close> and \<open>[0]\<close>, each of which raises on a
    value of the wrong shape; the model returns the exception as \<open>Inl\<close>.
  \<^item> The network is a parameter: \<open>transport\<close> maps the requests made so far and the
    current request to a parsed response or to an exception.
  \<^item> Python's rendering of a non-string value and of an exception inside an f-string,
    and the conversion of a string or an integer by \<open>float\<close> (with its rounding, and
    its \<open>ValueError\<close> and \<open>OverflowError\<close>), are parameters of the environment as
    well.
\<close>

subsection \<open>Python values\<close>

datatype json =
    JNull
  | JBool bool
  | JInt int
  | JFloat real
  | JStr string
  | JArr "json list"
  | JObj "(string \<times> json) list"

datatype exn =
    TransportError string
  | KeyError
  | IndexError
  | TypeError
  | AttributeError
  | ValueError
  | OverflowError

text \<open>Truth value of a Python object in a condition.\<close>

fun truthy :: "json \<Rightarrow> bool" where
  "truthy JNull = False"
| "truthy (JBool b) = b"
| "truthy (JInt i) = (i \<noteq> 0)"
| "truthy (JFloat x) = (x \<noteq> 0)"
| "truthy (JStr s) = (s \<noteq> [])"
| "truthy (JArr xs) = (xs \<noteq> [])"
| "truthy (JObj kvs) = (kvs \<noteq> [])"

text \<open>\<open>d.get(k, default)\<close>: only a dict has the method.\<close>

fun py_get :: "json \<Rightarrow> string \<Rightarrow> json \<Rightarrow> exn + json" where
  "py_get (JObj kvs) k dflt = Inr (case map_of kvs k of Some v \<Rightarrow> v | None \<Rightarrow> dflt)"
| "py_get _ k dflt = Inl AttributeError"

text \<open>\<open>d[k]\<close> with a string key.\<close>

fun py_item :: "json \<Rightarrow> string \<Rightarrow> exn + json" where
  "py_item (JObj kvs) k = (case map_of kvs k of Some v \<Rightarrow> Inr v | None \<Rightarrow> Inl KeyError)"
| "py_item _ k = Inl TypeError"

text \<open>\<open>d[0]\<close>: a list or a string gives its first element; the keys of a parsed
  object are strings, so the integer key is never there.\<close>

fun py_first :: "json \<Rightarrow> exn + json" where
  "py_first (JArr xs) = (case xs of [] \<Rightarrow> Inl IndexError | x # _ \<Rightarrow> Inr x)"
| "py_first (JStr s) = (case s of [] \<Rightarrow> Inl IndexError | c # _ \<Rightarrow> Inr (JStr [c]))"
| "py_first (JObj kvs) = Inl KeyError"
| "py_first _ = Inl TypeError"

fun is_number :: "json \<Rightarrow> bool" where
  "is_number (JInt i) = True"
| "is_number (JFloat x) = True"
| "is_number _ = False"

subsection \<open>Strings\<close>

text \<open>The characters below 256 that \<open>str.strip()\<close> removes: tab to carriage return,
  the four separators, the space, next line (U+0085) and the no-break space (U+00A0).\<close>

definition is_space :: "char \<Rightarrow> bool" where
  "is_space c = (c \<in> set [CHR 0x09, CHR 0x0A, CHR 0x0B, CHR 0x0C, CHR 0x0D,
                           CHR 0x1C, CHR 0x1D, CHR 0x1E, CHR 0x1F, CHR '' '',
                           CHR 0x85, CHR 0xA0])"

definition is_digit :: "char \<Rightarrow> bool" where
  "is_digit c = (c \<in> set ''0123456789'')"

definition strip :: "string \<Rightarrow> string" where
  "strip s = rev (dropWhile is_space (rev (dropWhile is_space s)))"

text \<open>\<open>str.lower()\<close> on one character: the letters A to Z, and the capital letters
  U+00C0 to U+00DE without the multiplication sign U+00D7, each 32 below its small
  letter.\<close>

definition upper_letters :: string where
  "upper_letters =
     ''ABCDEFGHIJKLMNOPQRSTUVWXYZ''
     @ [CHR 0xC0, CHR 0xC1, CHR 0xC2, CHR 0xC3, CHR 0xC4, CHR 0xC5, CHR 0xC6,
        CHR 0xC7, CHR 0xC8, CHR 0xC9, CHR 0xCA, CHR 0xCB, CHR 0xCC, CHR 0xCD,
        CHR 0xCE, CHR 0xCF, CHR 0xD0, CHR 0xD1, CHR 0xD2, CHR 0xD3, CHR 0xD4,
        CHR 0xD5, CHR 0xD6, CHR 0xD8, CHR 0xD9, CHR 0xDA, CHR 0xDB, CHR 0xDC,
        CHR 0xDD, CHR 0xDE]"

definition lower_letters :: string where
  "lower_letters =
     ''abcdefghijklmnopqrstuvwxyz''
     @ [CHR 0xE0, CHR 0xE1, CHR 0xE2, CHR 0xE3, CHR 0xE4, CHR 0xE5, CHR 0xE6,
        CHR 0xE7, CHR 0xE8, CHR 0xE9, CHR 0xEA, CHR 0xEB, CHR 0xEC, CHR 0xED,
        CHR 0xEE, CHR 0xEF, CHR 0xF0, CHR 0xF1, CHR 0xF2, CHR 0xF3, CHR 0xF4,
        CHR 0xF5, CHR 0xF6, CHR 0xF8, CHR 0xF9, CHR 0xFA, CHR 0xFB, CHR 0xFC,
        CHR 0xFD, CHR 0xFE]"

definition lower_char :: "char \<Rightarrow> char" where
  "lower_char c =
     (case map_of (zip upper_letters lower_letters) c of
        Some l \<Rightarrow> l
      | None \<Rightarrow> c)"

definition lower :: "string \<Rightarrow> string" where
  "lower s = map lower_char s"

text \<open>\<open>", ".join(parts)\<close>\<close>

fun join_comma :: "string list \<Rightarrow> string" where
  "join_comma [] = []"
| "join_comma [x] = x"
| "join_comma (x # y # ys) = x @ '', '' @ join_comma (y # ys)"

subsection \<open>Helpers of both scripts\<close>

text \<open>A spreadsheet cell or an argument of the resolver: \<open>None\<close>, the float NaN that
  pandas gives for an empty cell, or a string.\<close>

datatype cell = CNone | CNaN | CStr string

text \<open>geocode\_json.py, \<open>clean_cell\<close>.\<close>

definition clean_cell :: "cell \<Rightarrow> string option" where
  "clean_cell x =
     (case x of
        CNone \<Rightarrow> None
      | CNaN \<Rightarrow> None
      | CStr t \<Rightarrow>
          (let s = strip t in
           if s = [] \<or> lower s = ''nan'' then None else Some s))"

text \<open>find.py, \<open>clean_cell\<close>: no test for \<open>None\<close> of its own, \<open>pd.isna\<close> answers
  for \<open>None\<close> and for NaN.\<close>

definition pd_isna :: "cell \<Rightarrow> bool" where
  "pd_isna x = (case x of CNone \<Rightarrow> True | CNaN \<Rightarrow> True | CStr t \<Rightarrow> False)"

definition py_str_cell :: "cell \<Rightarrow> string" where
  "py_str_cell x = (case x of CNone \<Rightarrow> ''None'' | CNaN \<Rightarrow> ''nan'' | CStr t \<Rightarrow> t)"

definition find_clean_cell :: "cell \<Rightarrow> string option" where
  "find_clean_cell x =
     (if pd_isna x then None
      else (let s = strip (py_str_cell x) in
            if s = [] \<or> lower s = ''nan'' then None else Some s))"

text \<open>\<open>is_low_quality_address\<close>, the same text in both scripts.\<close>

fun is_str :: "json \<Rightarrow> bool" where
  "is_str (JStr s) = True"
| "is_str _ = False"

fun str_of :: "json \<Rightarrow> string" where
  "str_of (JStr s) = s"
| "str_of _ = []"

text \<open>\<open>re.search(r"\d", s) is not None\<close>\<close>

definition has_digit :: "string \<Rightarrow> bool" where
  "has_digit s = list_ex is_digit s"

definition is_low_quality_address :: "json \<Rightarrow> bool" where
  "is_low_quality_address addr =
     (if \<not> truthy addr \<or> \<not> is_str addr then True
      else \<not> has_digit (str_of addr))"

text \<open>Truth value of an optional string, and the query both resolvers build.\<close>

definition present :: "string option \<Rightarrow> bool" where
  "present v = (case v of None \<Rightarrow> False | Some s \<Rightarrow> s \<noteq> [])"

definition make_query :: "string option \<Rightarrow> string option \<Rightarrow> string" where
  "make_query name city = join_comma (map the (filter present [name, city]))"

subsection \<open>Requests, the environment and the state\<close>

record request =
  url :: string
  params :: "(string \<times> json) list"

text \<open>
  \<open>transport\<close> is \<open>session.get(url, params=params, timeout=timeout)\<close> followed by
  \<open>r.json()\<close>: given the requests already made, it answers the current one with the
  parsed body or raises. \<open>repr_value\<close> renders a value that is not a string inside an
  f-string, \<open>exn_text\<close> renders an exception there, \<open>float_of_text\<close> is \<open>float\<close> on a
  string (\<open>None\<close> where Python raises \<open>ValueError\<close>), \<open>float_of_int\<close> is \<open>float\<close>
  on an integer, rounded as Python rounds it (\<open>None\<close> where Python raises
  \<open>OverflowError\<close>).
\<close>

record env =
  transport :: "request list \<Rightarrow> request \<Rightarrow> exn + json"
  repr_value :: "json \<Rightarrow> string"
  exn_text :: "exn \<Rightarrow> string"
  float_of_text :: "string \<Rightarrow> real option"
  float_of_int :: "int \<Rightarrow> real option"

text \<open>The requests made so far, oldest first, and the \<open>city_cache\<close> dict that the
  driver of geocode\_json.py creates once and hands to every call.\<close>

record state =
  calls :: "request list"
  city_cache :: "string \<rightharpoonup> real \<times> real"

type_synonym 'a io = "state \<Rightarrow> (exn + 'a) \<times> state"

definition return_io :: "'a \<Rightarrow> 'a io" where
  "return_io x = (\<lambda>s. (Inr x, s))"

definition lift_io :: "exn + 'a \<Rightarrow> 'a io" where
  "lift_io r = (\<lambda>s. (r, s))"

definition bind_io :: "'a io \<Rightarrow> ('a \<Rightarrow> 'b io) \<Rightarrow> 'b io" where
  "bind_io m f = (\<lambda>s. case m s of (Inl e, s') \<Rightarrow> (Inl e, s') | (Inr x, s') \<Rightarrow> f x s')"

text \<open>\<open>try: m except Exception as e: h e\<close>\<close>

definition try_except :: "'a io \<Rightarrow> (exn \<Rightarrow> 'a io) \<Rightarrow> 'a io" where
  "try_except m h = (\<lambda>s. case m s of (Inl e, s') \<Rightarrow> h e s' | (Inr x, s') \<Rightarrow> (Inr x, s'))"

text \<open>Sequencing of the operations that may raise but touch no state.\<close>

definition bind_e :: "exn + 'a \<Rightarrow> ('a \<Rightarrow> exn + 'b) \<Rightarrow> exn + 'b" where
  "bind_e r f = (case r of Inl e \<Rightarrow> Inl e | Inr x \<Rightarrow> f x)"

text \<open>\<open>f"{v}"\<close> and \<open>f"{e}"\<close>\<close>

definition py_format :: "env \<Rightarrow> json \<Rightarrow> string" where
  "py_format E v = (case v of JStr s \<Rightarrow> s | _ \<Rightarrow> repr_value E v)"

definition format_exn :: "env \<Rightarrow> exn \<Rightarrow> string" where
  "format_exn E e = (case e of TransportError m \<Rightarrow> m | _ \<Rightarrow> exn_text E e)"

text \<open>\<open>float(v)\<close>\<close>

definition py_float :: "env \<Rightarrow> json \<Rightarrow> exn + real" where
  "py_float E v =
     (case v of
        JInt i \<Rightarrow> (case float_of_int E i of Some x \<Rightarrow> Inr x | None \<Rightarrow> Inl OverflowError)
      | JFloat x \<Rightarrow> Inr x
      | JBool b \<Rightarrow> Inr (if b then 1 else 0)
      | JStr s \<Rightarrow> (case float_of_text E s of Some x \<Rightarrow> Inr x | None \<Rightarrow> Inl ValueError)
      | _ \<Rightarrow> Inl TypeError)"

definition http_get_json :: "env \<Rightarrow> request \<Rightarrow> json io" where
  "http_get_json E rq = (\<lambda>s. (transport E (calls s) rq, s\<lparr>calls := calls s @ [rq]\<rparr>))"

subsection \<open>geocode\_json.py: provider adapters\<close>

record result =
  latitude :: json
  longitude :: json
  formatted_address :: json
  resolved_name :: json
  status :: string
  source :: string
  place_id :: json

text \<open>The dict literal that every failure branch of geocode\_json.py returns, with its
  two varying entries.\<close>

definition failure_result :: "string \<Rightarrow> string \<Rightarrow> result" where
  "failure_result st src =
     \<lparr>latitude = JNull, longitude = JNull, formatted_address = JNull,
      resolved_name = JNull, status = st, source = src, place_id = JNull\<rparr>"

definition CITY_TEXTSEARCH_RADIUS_M :: int where
  "CITY_TEXTSEARCH_RADIUS_M = 50000"

definition PLACES_TYPE :: string where
  "PLACES_TYPE = ''tourist_attraction''"

definition details_request :: "json \<Rightarrow> string \<Rightarrow> request" where
  "details_request pid api_key =
     \<lparr>url = ''https://maps.googleapis.com/maps/api/place/details/json'',
      params = [(''place_id'', pid),
                (''fields'', JStr ''name,formatted_address,geometry,types''),
                (''key'', JStr api_key)]\<rparr>"

definition place_details :: "json \<Rightarrow> string \<Rightarrow> env \<Rightarrow> result option io" where
  "place_details pid api_key E =
     bind_io (http_get_json E (details_request pid api_key)) (\<lambda>data.
     lift_io
      (bind_e (py_get data ''status'' JNull) (\<lambda>st.
       if st = JStr ''OK'' then
         bind_e (py_item data ''result'') (\<lambda>res.
         bind_e (py_item res ''geometry'') (\<lambda>geo.
         bind_e (py_item geo ''location'') (\<lambda>loc.
         bind_e (py_get loc ''lat'' JNull) (\<lambda>lat.
         bind_e (py_get loc ''lng'' JNull) (\<lambda>lng.
         bind_e (py_get res ''formatted_address'' (JStr [])) (\<lambda>addr.
         bind_e (py_get res ''name'' (JStr [])) (\<lambda>nm.
         Inr (Some \<lparr>latitude = lat, longitude = lng, formatted_address = addr,
                    resolved_name = nm, status = ''success'',
                    source = ''places_details'', place_id = pid\<rparr>))))))))
       else Inr None)))"

definition findplace_request :: "string \<Rightarrow> string \<Rightarrow> request" where
  "findplace_request query api_key =
     \<lparr>url = ''https://maps.googleapis.com/maps/api/place/findplacefromtext/json'',
      params = [(''input'', JStr query),
                (''inputtype'', JStr ''textquery''),
                (''fields'', JStr ''place_id''),
                (''key'', JStr api_key)]\<rparr>"

definition findplace_then_details :: "string \<Rightarrow> string \<Rightarrow> env \<Rightarrow> result io" where
  "findplace_then_details query api_key E =
     try_except
      (bind_io (http_get_json E (findplace_request query api_key)) (\<lambda>data.
       let not_found =
             bind_io (lift_io (py_get data ''status'' (JStr ''UNKNOWN''))) (\<lambda>st.
             return_io (failure_result (''not_found_in_places:'' @ py_format E st)
                                       ''places_findplace''))
       in
       bind_io (lift_io
         (bind_e (py_get data ''status'' JNull) (\<lambda>st.
          if st = JStr ''OK''
          then bind_e (py_get data ''candidates'' JNull) (\<lambda>c. Inr (truthy c))
          else Inr False))) (\<lambda>found.
       if found then
         bind_io (lift_io
           (bind_e (py_item data ''candidates'') (\<lambda>cs.
            bind_e (py_first cs) (\<lambda>c.
            py_item c ''place_id'')))) (\<lambda>pid.
         bind_io (place_details pid api_key E) (\<lambda>details.
         case details of
           None \<Rightarrow> not_found
         | Some d \<Rightarrow>
             if status d = ''success''
             then return_io (d\<lparr>source := ''places_findplace''\<rparr>)
             else not_found))
       else not_found)))
      (\<lambda>e. return_io (failure_result (''Exception: '' @ format_exn E e)
                                      ''places_findplace''))"

definition textsearch_request ::
  "string \<Rightarrow> string \<Rightarrow> string option \<Rightarrow> int \<Rightarrow> string option \<Rightarrow> request" where
  "textsearch_request query api_key location radius place_type =
     \<lparr>url = ''https://maps.googleapis.com/maps/api/place/textsearch/json'',
      params = [(''query'', JStr query), (''key'', JStr api_key)]
               @ (if present location
                  then [(''location'', JStr (the location)), (''radius'', JInt radius)]
                  else [])
               @ (if present place_type then [(''type'', JStr (the place_type))] else [])\<rparr>"

definition places_text_search_place_id ::
  "string \<Rightarrow> string \<Rightarrow> env \<Rightarrow> string option \<Rightarrow> int \<Rightarrow> string option \<Rightarrow> json io" where
  "places_text_search_place_id query api_key E location radius place_type =
     bind_io (http_get_json E (textsearch_request query api_key location radius place_type))
      (\<lambda>data.
     lift_io
      (bind_e (py_get data ''status'' JNull) (\<lambda>st.
       if st = JStr ''OK'' then
         bind_e (py_get data ''results'' JNull) (\<lambda>rs.
         if truthy rs then
           bind_e (py_item data ''results'') (\<lambda>rs'.
           bind_e (py_first rs') (\<lambda>r.
           py_get r ''place_id'' JNull))
         else Inr JNull)
       else Inr JNull)))"

definition geocode_request :: "string \<Rightarrow> string \<Rightarrow> request" where
  "geocode_request query api_key =
     \<lparr>url = ''https://maps.googleapis.com/maps/api/geocode/json'',
      params = [(''address'', JStr query), (''key'', JStr api_key)]\<rparr>"

definition geocode_fallback :: "string \<Rightarrow> string \<Rightarrow> env \<Rightarrow> result io" where
  "geocode_fallback query api_key E =
     try_except
      (bind_io (http_get_json E (geocode_request query api_key)) (\<lambda>data.
       bind_io (lift_io
         (bind_e (py_get data ''status'' JNull) (\<lambda>st.
          if st = JStr ''OK''
          then bind_e (py_get data ''results'' JNull) (\<lambda>rs. Inr (truthy rs))
          else Inr False))) (\<lambda>found.
       if found then
         lift_io
           (bind_e (py_item data ''results'') (\<lambda>rs.
            bind_e (py_first rs) (\<lambda>r0.
            bind_e (py_item r0 ''geometry'') (\<lambda>geo.
            bind_e (py_item geo ''location'') (\<lambda>loc.
            bind_e (py_item data ''results'') (\<lambda>rs'.
            bind_e (py_first rs') (\<lambda>r0'.
            bind_e (py_get r0' ''formatted_address'' JNull) (\<lambda>addr.
            bind_e (py_get loc ''lat'' JNull) (\<lambda>lat.
            bind_e (py_get loc ''lng'' JNull) (\<lambda>lng.
            Inr \<lparr>latitude = lat, longitude = lng, formatted_address = addr,
                 resolved_name = JNull, status = ''success'',
                 source = ''geocoding_api'', place_id = JNull\<rparr>))))))))))
       else
         bind_io (lift_io (py_get data ''status'' (JStr ''UNKNOWN''))) (\<lambda>st.
         return_io (failure_result (''Error: '' @ py_format E st) ''geocoding_api'')))))
      (\<lambda>e. return_io (failure_result (''Exception: '' @ format_exn E e) ''geocoding_api''))"

subsection \<open>geocode\_json.py: the resolver with its city cache\<close>

definition get_city_latlng :: "string \<Rightarrow> string \<Rightarrow> env \<Rightarrow> (real \<times> real) option io" where
  "get_city_latlng city api_key E = (\<lambda>s.
     case city_cache s city of
       Some v \<Rightarrow> (Inr (Some v), s)
     | None \<Rightarrow>
         bind_io (geocode_fallback city api_key E) (\<lambda>r.
         if status r = ''success'' \<and> latitude r \<noteq> JNull \<and> longitude r \<noteq> JNull then
           bind_io (lift_io (py_float E (latitude r))) (\<lambda>la.
           bind_io (lift_io (py_float E (longitude r))) (\<lambda>lo.
           (\<lambda>s'. (Inr (Some (la, lo)),
                  s'\<lparr>city_cache := (city_cache s')(city \<mapsto> (la, lo))\<rparr>))))
         else return_io None) s)"

text \<open>Lines 235 to 239 of \<open>resolve_attraction\<close>: the \<open>location\<close> argument of the text
  search, the cached or freshly geocoded centre of the city rendered as \<open>lat,lng\<close>.\<close>

definition city_bias :: "string option \<Rightarrow> string \<Rightarrow> env \<Rightarrow> string option io" where
  "city_bias city api_key E =
     (if present city then
        bind_io (get_city_latlng (the city) api_key E) (\<lambda>latlng.
        return_io
          (case latlng of
             None \<Rightarrow> None
           | Some (la, lo) \<Rightarrow>
               Some (py_format E (JFloat la) @ '','' @ py_format E (JFloat lo))))
      else return_io None)"

definition resolve_attraction :: "cell \<Rightarrow> cell \<Rightarrow> string \<Rightarrow> env \<Rightarrow> result io" where
  "resolve_attraction attraction_name city_name api_key E =
     (let name = clean_cell attraction_name;
          city = clean_cell city_name
      in
      if \<not> present name \<and> \<not> present city then
        return_io (failure_result ''skipped-empty'' ''none'')
      else
        let query = make_query name city in
        bind_io (findplace_then_details query api_key E) (\<lambda>r1.
        if status r1 = ''success'' \<and> \<not> is_low_quality_address (formatted_address r1)
        then return_io r1
        else
          bind_io (city_bias city api_key E) (\<lambda>city_loc.
          bind_io (places_text_search_place_id query api_key E city_loc
                     CITY_TEXTSEARCH_RADIUS_M (Some PLACES_TYPE)) (\<lambda>pid.
          if truthy pid then
            bind_io (place_details pid api_key E) (\<lambda>d.
            case d of
              None \<Rightarrow> geocode_fallback query api_key E
            | Some d' \<Rightarrow>
                if status d' = ''success'' then
                  return_io
                    (if is_low_quality_address (formatted_address d')
                     then d'\<lparr>source := ''places_textsearch_low_quality''\<rparr>
                     else d'\<lparr>source := ''places_textsearch''\<rparr>)
                else geocode_fallback query api_key E)
          else geocode_fallback query api_key E))))"

subsection \<open>find.py: provider adapters and the resolver without a cache\<close>

text \<open>The dict of find.py has the key \<open>venue_name\<close> where geocode\_json.py has
  \<open>resolved_name\<close>, and no \<open>place_id\<close>; the fields carry a prefix where the name is
  taken by the record above.\<close>

record venue_result =
  v_latitude :: json
  v_longitude :: json
  v_formatted_address :: json
  venue_name :: json
  v_status :: string
  v_source :: string

definition venue_failure :: "string \<Rightarrow> string \<Rightarrow> venue_result" where
  "venue_failure st src =
     \<lparr>v_latitude = JNull, v_longitude = JNull, v_formatted_address = JNull,
      venue_name = JNull, v_status = st, v_source = src\<rparr>"

definition find_details_request :: "json \<Rightarrow> string \<Rightarrow> request" where
  "find_details_request pid api_key =
     \<lparr>url = ''https://maps.googleapis.com/maps/api/place/details/json'',
      params = [(''place_id'', pid),
                (''fields'', JStr ''name,formatted_address,address_components,geometry,types''),
                (''key'', JStr api_key)]\<rparr>"

definition find_place_details :: "json \<Rightarrow> string \<Rightarrow> env \<Rightarrow> venue_result option io" where
  "find_place_details pid api_key E =
     bind_io (http_get_json E (find_details_request pid api_key)) (\<lambda>data.
     lift_io
      (bind_e (py_get data ''status'' JNull) (\<lambda>st.
       if st = JStr ''OK'' then
         bind_e (py_item data ''result'') (\<lambda>res.
         bind_e (py_item res ''geometry'') (\<lambda>geo.
         bind_e (py_item geo ''location'') (\<lambda>loc.
         bind_e (py_get loc ''lat'' JNull) (\<lambda>lat.
         bind_e (py_get loc ''lng'' JNull) (\<lambda>lng.
         bind_e (py_get res ''formatted_address'' (JStr [])) (\<lambda>addr.
         bind_e (py_get res ''name'' (JStr [])) (\<lambda>nm.
         Inr (Some \<lparr>v_latitude = lat, v_longitude = lng, v_formatted_address = addr,
                    venue_name = nm, v_status = ''success'',
                    v_source = ''places_details''\<rparr>))))))))
       else Inr None)))"

definition find_findplace_request :: "string \<Rightarrow> string \<Rightarrow> request" where
  "find_findplace_request query api_key =
     \<lparr>url = ''https://maps.googleapis.com/maps/api/place/findplacefromtext/json'',
      params = [(''input'', JStr query),
                (''inputtype'', JStr ''textquery''),
                (''fields'', JStr ''place_id,name,formatted_address,geometry''),
                (''key'', JStr api_key)]\<rparr>"

definition find_venue_with_places_findplace ::
  "string \<Rightarrow> string \<Rightarrow> env \<Rightarrow> venue_result io" where
  "find_venue_with_places_findplace query api_key E =
     try_except
      (bind_io (http_get_json E (find_findplace_request query api_key)) (\<lambda>data.
       let not_found =
             bind_io (lift_io (py_get data ''status'' (JStr ''UNKNOWN''))) (\<lambda>st.
             return_io (venue_failure (''not_found_in_places:'' @ py_format E st)
                                      ''places_findplace''))
       in
       bind_io (lift_io
         (bind_e (py_get data ''status'' JNull) (\<lambda>st.
          if st = JStr ''OK''
          then bind_e (py_get data ''candidates'' JNull) (\<lambda>c. Inr (truthy c))
          else Inr False))) (\<lambda>found.
       if found then
         bind_io (lift_io
           (bind_e (py_item data ''candidates'') (\<lambda>cs.
            bind_e (py_first cs) (\<lambda>c.
            py_item c ''place_id'')))) (\<lambda>pid.
         bind_io (find_place_details pid api_key E) (\<lambda>details.
         case details of
           None \<Rightarrow> not_found
         | Some d \<Rightarrow>
             if v_status d = ''success''
             then return_io (d\<lparr>v_source := ''places_findplace''\<rparr>)
             else not_found))
       else not_found)))
      (\<lambda>e. return_io (venue_failure (''Exception: '' @ format_exn E e)
                                     ''places_findplace''))"

text \<open>The text search of find.py is the one of geocode\_json.py, line for line, apart
  from the default of \<open>place_type\<close>, which no caller relies on.\<close>

definition find_places_text_search_place_id ::
  "string \<Rightarrow> string \<Rightarrow> env \<Rightarrow> string option \<Rightarrow> int \<Rightarrow> string option \<Rightarrow> json io" where
  "find_places_text_search_place_id query api_key E location radius place_type =
     bind_io (http_get_json E (textsearch_request query api_key location radius place_type))
      (\<lambda>data.
     lift_io
      (bind_e (py_get data ''status'' JNull) (\<lambda>st.
       if st = JStr ''OK'' then
         bind_e (py_get data ''results'' JNull) (\<lambda>rs.
         if truthy rs then
           bind_e (py_item data ''results'') (\<lambda>rs'.
           bind_e (py_first rs') (\<lambda>r.
           py_get r ''place_id'' JNull))
         else Inr JNull)
       else Inr JNull)))"

definition geocode_venue :: "string \<Rightarrow> string \<Rightarrow> env \<Rightarrow> venue_result io" where
  "geocode_venue query api_key E =
     try_except
      (bind_io (http_get_json E (geocode_request query api_key)) (\<lambda>data.
       bind_io (lift_io
         (bind_e (py_get data ''status'' JNull) (\<lambda>st.
          if st = JStr ''OK''
          then bind_e (py_get data ''results'' JNull) (\<lambda>rs. Inr (truthy rs))
          else Inr False))) (\<lambda>found.
       if found then
         lift_io
           (bind_e (py_item data ''results'') (\<lambda>rs.
            bind_e (py_first rs) (\<lambda>r0.
            bind_e (py_item r0 ''geometry'') (\<lambda>geo.
            bind_e (py_item geo ''location'') (\<lambda>loc.
            bind_e (py_item data ''results'') (\<lambda>rs'.
            bind_e (py_first rs') (\<lambda>r0'.
            bind_e (py_get r0' ''formatted_address'' JNull) (\<lambda>addr.
            bind_e (py_get loc ''lat'' JNull) (\<lambda>lat.
            bind_e (py_get loc ''lng'' JNull) (\<lambda>lng.
            Inr \<lparr>v_latitude = lat, v_longitude = lng, v_formatted_address = addr,
                 venue_name = JNull, v_status = ''success'',
                 v_source = ''geocoding_api''\<rparr>))))))))))
       else
         bind_io (lift_io (py_get data ''status'' (JStr ''UNKNOWN''))) (\<lambda>st.
         return_io (venue_failure (''Error: '' @ py_format E st) ''geocoding_api'')))))
      (\<lambda>e. return_io (venue_failure (''Exception: '' @ format_exn E e) ''geocoding_api''))"

text \<open>Lines 218 to 222 of \<open>get_venue_location\<close>: the city is geocoded on the spot.\<close>

definition city_location :: "string option \<Rightarrow> string \<Rightarrow> env \<Rightarrow> string option io" where
  "city_location city_clean api_key E =
     (if present city_clean then
        bind_io (geocode_venue (the city_clean) api_key E) (\<lambda>c.
        return_io
          (if v_status c = ''success'' \<and> v_latitude c \<noteq> JNull \<and> v_longitude c \<noteq> JNull
           then Some (py_format E (v_latitude c) @ '','' @ py_format E (v_longitude c))
           else None))
      else return_io None)"

definition get_venue_location :: "cell \<Rightarrow> cell \<Rightarrow> string \<Rightarrow> env \<Rightarrow> venue_result io" where
  "get_venue_location venue_nm city api_key E =
     (let venue_name_clean = find_clean_cell venue_nm;
          city_clean = find_clean_cell city
      in
      if \<not> present venue_name_clean \<and> \<not> present city_clean then
        return_io (venue_failure ''skipped-empty'' ''none'')
      else
        let query = make_query venue_name_clean city_clean in
        bind_io (find_venue_with_places_findplace query api_key E) (\<lambda>result.
        if v_status result = ''success''
           \<and> \<not> is_low_quality_address (v_formatted_address result)
        then return_io result
        else
          bind_io (city_location city_clean api_key E) (\<lambda>city_loc.
          bind_io (find_places_text_search_place_id query api_key E city_loc
                     50000 (Some ''tourist_attraction'')) (\<lambda>pid.
          if truthy pid then
            bind_io (find_place_details pid api_key E) (\<lambda>details.
            case details of
              None \<Rightarrow> geocode_venue query api_key E
            | Some d \<Rightarrow>
                if v_status d = ''success''
                   \<and> \<not> is_low_quality_address (v_formatted_address d)
                then return_io (d\<lparr>v_source := ''places_textsearch''\<rparr>)
                else if v_status d = ''success''
                then return_io (d\<lparr>v_source := ''places_textsearch_low_quality''\<rparr>)
                else geocode_venue query api_key E)
          else geocode_venue query api_key E))))"

subsection \<open>The coordinate invariant of the specification\<close>

text \<open>
  The data model of the specification asks of every result record: status "success"
  goes with a numeric latitude and longitude, any other status with both absent.
  \<open>absent_unless_success\<close> is its second half alone.

  The adapters copy the coordinates from the \<open>location\<close> object of the response:
  \<open>data["result"]["geometry"]["location"]\<close> for place details,
  \<open>data["results"][0]["geometry"]["location"]\<close> for geocoding. A provider is
  \<open>numeric_provider\<close> when every such object it serves carries numbers under
  \<open>lat\<close> and \<open>lng\<close>.
\<close>

definition coordinates_match_status :: "result \<Rightarrow> bool" where
  "coordinates_match_status r =
     (if status r = ''success''
      then is_number (latitude r) \<and> is_number (longitude r)
      else latitude r = JNull \<and> longitude r = JNull)"

definition venue_coordinates_match_status :: "venue_result \<Rightarrow> bool" where
  "venue_coordinates_match_status r =
     (if v_status r = ''success''
      then is_number (v_latitude r) \<and> is_number (v_longitude r)
      else v_latitude r = JNull \<and> v_longitude r = JNull)"

definition details_location :: "json \<Rightarrow> exn + json" where
  "details_location data =
     bind_e (py_item data ''result'') (\<lambda>res.
     bind_e (py_item res ''geometry'') (\<lambda>geo.
     py_item geo ''location''))"

definition geocode_location :: "json \<Rightarrow> exn + json" where
  "geocode_location data =
     bind_e (py_item data ''results'') (\<lambda>rs.
     bind_e (py_first rs) (\<lambda>r0.
     bind_e (py_item r0 ''geometry'') (\<lambda>geo.
     py_item geo ''location'')))"

definition numeric_pair :: "json \<Rightarrow> bool" where
  "numeric_pair loc =
     (case py_get loc ''lat'' JNull of
        Inl e \<Rightarrow> True
      | Inr lat \<Rightarrow>
          (case py_get loc ''lng'' JNull of
             Inl e \<Rightarrow> True
           | Inr lng \<Rightarrow> is_number lat \<and> is_number lng))"

definition numeric_locations :: "json \<Rightarrow> bool" where
  "numeric_locations data =
     ((case details_location data of Inl e \<Rightarrow> True | Inr loc \<Rightarrow> numeric_pair loc)
      \<and> (case geocode_location data of Inl e \<Rightarrow> True | Inr loc \<Rightarrow> numeric_pair loc))"

definition numeric_provider :: "env \<Rightarrow> bool" where
  "numeric_provider E =
     (\<forall>history rq data. transport E history rq = Inr data \<longrightarrow> numeric_locations data)"

definition absent_unless_success :: "result \<Rightarrow> bool" where
  "absent_unless_success r =
     (if status r = ''success'' then True else latitude r = JNull \<and> longitude r = JNull)"

definition venue_absent_unless_success :: "venue_result \<Rightarrow> bool" where
  "venue_absent_unless_success r =
     (if v_status r = ''success'' then True
      else v_latitude r = JNull \<and> v_longitude r = JNull)"

text \<open>
  Where the coordinates of a record come from. \<open>copied_coordinates answer locate lat lng\<close>
  says that the provider answered with a body, that \<open>locate\<close> finds a location object in
  it, and that \<open>lat\<close> and \<open>lng\<close> are what \<open>.get("lat")\<close> and \<open>.get("lng")\<close> read
  there (\<open>None\<close> for a key the object lacks). \<open>last_answer\<close> is the provider's answer
  to the last request of a run.
\<close>

definition copied_coordinates ::
  "exn + json \<Rightarrow> (json \<Rightarrow> exn + json) \<Rightarrow> json \<Rightarrow> json \<Rightarrow> bool" where
  "copied_coordinates answer locate lat lng =
     (case answer of
        Inl e \<Rightarrow> False
      | Inr data \<Rightarrow>
          (case locate data of
             Inl e \<Rightarrow> False
           | Inr loc \<Rightarrow> py_get loc ''lat'' JNull = Inr lat \<and> py_get loc ''lng'' JNull = Inr lng))"

definition last_answer :: "env \<Rightarrow> state \<Rightarrow> exn + json" where
  "last_answer E s = transport E (butlast (calls s)) (last (calls s))"

subsection \<open>Reading the log of requests\<close>






subsection \<open>Example providers\<close>

text \<open>Concrete environments on which the theorems below are instantiated. A provider
  is given by the answer of each of its four endpoints; \<open>flaky_geocoder\<close> fails on the
  first request of a run and answers from then on. The examples carry their
  coordinates as floats, so the two conversions of \<open>float\<close> are never consulted; they
  are set to fail.\<close>

definition example_env :: "(request list \<Rightarrow> request \<Rightarrow> exn + json) \<Rightarrow> env" where
  "example_env tr =
     \<lparr>transport = tr, repr_value = (\<lambda>v. ''<value>''),
      exn_text = (\<lambda>e. ''<exception>''), float_of_text = (\<lambda>t. None),
      float_of_int = (\<lambda>i. None)\<rparr>"

definition by_endpoint ::
  "exn + json \<Rightarrow> exn + json \<Rightarrow> exn + json \<Rightarrow> exn + json
     \<Rightarrow> request list \<Rightarrow> request \<Rightarrow> exn + json" where
  "by_endpoint findplace details textsearch geocode history rq =
     (if url rq = ''https://maps.googleapis.com/maps/api/place/findplacefromtext/json''
      then findplace
      else if url rq = ''https://maps.googleapis.com/maps/api/place/details/json''
      then details
      else if url rq = ''https://maps.googleapis.com/maps/api/place/textsearch/json''
      then textsearch
      else geocode)"

definition fresh :: state where
  "fresh = \<lparr>calls = [], city_cache = Map.empty\<rparr>"

definition zero_results :: json where
  "zero_results = JObj [(''status'', JStr ''ZERO_RESULTS'')]"

definition one_candidate :: json where
  "one_candidate =
     JObj [(''status'', JStr ''OK''),
           (''candidates'', JArr [JObj [(''place_id'', JStr ''p1'')]])]"

definition one_search_result :: json where
  "one_search_result =
     JObj [(''status'', JStr ''OK''),
           (''results'', JArr [JObj [(''place_id'', JStr ''p2'')]])]"

definition point :: json where
  "point = JObj [(''location'', JObj [(''lat'', JFloat 48), (''lng'', JFloat 2)])]"

definition street_details :: json where
  "street_details =
     JObj [(''status'', JStr ''OK''),
           (''result'', JObj [(''name'', JStr ''Louvre''),
                              (''formatted_address'', JStr ''99 Rue de Rivoli, Paris''),
                              (''geometry'', point)])]"

definition city_details :: json where
  "city_details =
     JObj [(''status'', JStr ''OK''),
           (''result'', JObj [(''name'', JStr ''Paris''),
                              (''formatted_address'', JStr ''Paris, France''),
                              (''geometry'', point)])]"

definition details_without_coordinates :: json where
  "details_without_coordinates =
     JObj [(''status'', JStr ''OK''),
           (''result'', JObj [(''name'', JStr ''Louvre''),
                              (''formatted_address'', JStr ''99 Rue de Rivoli, Paris''),
                              (''geometry'', JObj [(''location'', JObj [])])])]"

definition geocoded_city :: json where
  "geocoded_city =
     JObj [(''status'', JStr ''OK''),
           (''results'', JArr [JObj [(''formatted_address'', JStr ''Paris, France''),
                                     (''geometry'', point)]])]"

definition flaky_geocoder :: "request list \<Rightarrow> request \<Rightarrow> exn + json" where
  "flaky_geocoder history rq =
     (if history = [] then Inl (TransportError ''timed out'') else Inr geocoded_city)"

section \<open>Properties\<close>

subsection \<open>Sequencing\<close>

lemma return_io_apply [simp]: "return_io x s = (Inr x, s)"
  by (simp add: return_io_def)

lemma lift_io_apply [simp]: "lift_io r s = (r, s)"
  by (simp add: lift_io_def)

lemma http_get_json_apply:
  "http_get_json E rq s = (transport E (calls s) rq, s\<lparr>calls := calls s @ [rq]\<rparr>)"
  by (simp add: http_get_json_def)

lemma bind_io_apply:
  "bind_io m f s = (case m s of (Inl e, s') \<Rightarrow> (Inl e, s') | (Inr x, s') \<Rightarrow> f x s')"
  by (simp add: bind_io_def)

lemma bind_io_lift:
  "bind_io (lift_io r) f s = (case r of Inl e \<Rightarrow> (Inl e, s) | Inr x \<Rightarrow> f x s)"
  by (simp add: bind_io_def lift_io_def split: sum.splits)

lemma bind_io_http:
  "bind_io (http_get_json E rq) f s =
     (case transport E (calls s) rq of
        Inl e \<Rightarrow> (Inl e, s\<lparr>calls := calls s @ [rq]\<rparr>)
      | Inr d \<Rightarrow> f d (s\<lparr>calls := calls s @ [rq]\<rparr>))"
  by (simp add: bind_io_def http_get_json_def split: sum.splits)

lemma try_except_apply:
  "try_except m h s = (case m s of (Inl e, s') \<Rightarrow> h e s' | (Inr x, s') \<Rightarrow> (Inr x, s'))"
  by (simp add: try_except_def)

lemma snd_bind_lift: "snd (bind_io m (\<lambda>x. lift_io (f x)) s) = snd (m s)"
  by (auto simp: bind_io_def split: prod.splits sum.splits)

subsection \<open>Normalisation and the quality classifier\<close>

lemma find_clean_cell_eq: "find_clean_cell x = clean_cell x"
  by (cases x) (simp_all add: find_clean_cell_def clean_cell_def pd_isna_def py_str_cell_def)

lemma clean_cell_present: "present (clean_cell x) \<longleftrightarrow> clean_cell x \<noteq> None"
  by (cases x) (auto simp: clean_cell_def present_def Let_def)

lemma lower_char_n: "lower_char c = CHR ''n'' \<longleftrightarrow> c = CHR ''n'' \<or> c = CHR ''N''"
  by (simp add: lower_char_def upper_letters_def lower_letters_def split: if_splits)

lemma lower_char_a: "lower_char c = CHR ''a'' \<longleftrightarrow> c = CHR ''a'' \<or> c = CHR ''A''"
  by (simp add: lower_char_def upper_letters_def lower_letters_def split: if_splits)

lemma lower_nan_iff:
  "lower u = ''nan'' \<longleftrightarrow>
     u \<in> set [''nan'', ''naN'', ''nAn'', ''nAN'', ''Nan'', ''NaN'', ''NAn'', ''NAN'']"
proof -
  have "lower u = ''nan'' \<longleftrightarrow>
        (\<exists>a b c. u = [a, b, c] \<and> lower_char a = CHR ''n'' \<and> lower_char b = CHR ''a''
                  \<and> lower_char c = CHR ''n'')"
    by (auto simp: lower_def map_eq_Cons_conv)
  then show ?thesis
    by (auto simp: lower_char_n lower_char_a)
qed

lemmas digit_eval = is_digit_def has_digit_def

lemmas text_eval = strip_def is_space_def lower_def lower_char_def upper_letters_def
  lower_letters_def digit_eval

lemma clean_cell_examples:
  "clean_cell (CStr ''Louvre'') = Some ''Louvre''"
  "clean_cell (CStr ''Paris'') = Some ''Paris''"
  "clean_cell CNone = None"
  by (simp_all add: clean_cell_def text_eval)

text \<open>
  C7. The quality classifier \<open>is_low_quality_address\<close> (the same function in both
  scripts) answers true exactly when the address is \<open>None\<close>, is not a string, or is a
  string without any of the digits 0 to 9. It is true on \<open>None\<close> and on
  "Amsterdam, Netherlands", false on "123 Main St, Amsterdam, Netherlands".
\<close>

theorem is_low_quality_address_contract:
  "(is_low_quality_address addr \<longleftrightarrow>
      addr = JNull \<or> \<not> is_str addr \<or> (\<forall>c\<in>set (str_of addr). c \<notin> set ''0123456789''))
   \<and> is_low_quality_address JNull
   \<and> is_low_quality_address (JStr ''Amsterdam, Netherlands'')
   \<and> \<not> is_low_quality_address (JStr ''123 Main St, Amsterdam, Netherlands'')"
proof -
  have "is_low_quality_address addr \<longleftrightarrow>
      addr = JNull \<or> \<not> is_str addr \<or> (\<forall>c\<in>set (str_of addr). c \<notin> set ''0123456789'')"
    by (cases addr)
       (auto simp: is_low_quality_address_def has_digit_def is_digit_def list_ex_iff)
  moreover have "is_low_quality_address JNull"
    by (simp add: is_low_quality_address_def)
  moreover have "is_low_quality_address (JStr ''Amsterdam, Netherlands'')"
    by (simp add: is_low_quality_address_def text_eval)
  moreover have "\<not> is_low_quality_address (JStr ''123 Main St, Amsterdam, Netherlands'')"
    by (simp add: is_low_quality_address_def text_eval)
  ultimately show ?thesis by blast
qed

theorem is_low_quality_address_contract_witness:
  "is_low_quality_address (JStr ''Rome, Italy'')
   \<and> \<not> is_low_quality_address (JStr ''Via Roma 4, Rome'')
   \<and> is_low_quality_address (JInt 42)"
  using is_low_quality_address_contract [of "JStr ''Rome, Italy''"]
        is_low_quality_address_contract [of "JStr ''Via Roma 4, Rome''"]
        is_low_quality_address_contract [of "JInt 42"]
  by simp

subsection \<open>Empty input\<close>

text \<open>
  C8. When the venue name and the city both normalise to absent, \<open>resolve_attraction\<close>
  and \<open>get_venue_location\<close> return at once a record with status "skipped-empty",
  source "none" and no coordinates. The state comes back as it was: no request has been
  sent and the city cache is untouched.
\<close>

theorem skipped_empty:
  "(clean_cell a = None \<and> clean_cell c = None \<longrightarrow>
      (\<exists>r. resolve_attraction a c api_key E s = (Inr r, s)
         \<and> status r = ''skipped-empty'' \<and> source r = ''none''
         \<and> latitude r = JNull \<and> longitude r = JNull))
   \<and> (find_clean_cell a = None \<and> find_clean_cell c = None \<longrightarrow>
      (\<exists>r. get_venue_location a c api_key E s = (Inr r, s)
         \<and> v_status r = ''skipped-empty'' \<and> v_source r = ''none''
         \<and> v_latitude r = JNull \<and> v_longitude r = JNull))"
  by (simp add: resolve_attraction_def get_venue_location_def present_def
                failure_result_def venue_failure_def)

theorem skipped_empty_witness:
  "clean_cell CNaN = None \<and> clean_cell (CStr ''   '') = None
   \<and> (\<exists>r. resolve_attraction CNaN (CStr ''   '') ''k''
              (example_env (by_endpoint (Inr zero_results) (Inr zero_results)
                 (Inr zero_results) (Inr zero_results))) fresh = (Inr r, fresh)
         \<and> status r = ''skipped-empty'' \<and> source r = ''none''
         \<and> latitude r = JNull \<and> longitude r = JNull)
   \<and> (\<exists>r. get_venue_location CNaN (CStr ''   '') ''k''
              (example_env (by_endpoint (Inr zero_results) (Inr zero_results)
                 (Inr zero_results) (Inr zero_results))) fresh = (Inr r, fresh)
         \<and> v_status r = ''skipped-empty'' \<and> v_source r = ''none''
         \<and> v_latitude r = JNull \<and> v_longitude r = JNull)"
proof -
  have h: "clean_cell CNaN = None" "clean_cell (CStr ''   '') = None"
    by (simp_all add: clean_cell_def text_eval)
  show ?thesis
    using h skipped_empty [of CNaN "CStr ''   ''" "''k''"
        "example_env (by_endpoint (Inr zero_results) (Inr zero_results)
           (Inr zero_results) (Inr zero_results))" fresh]
    by (simp add: find_clean_cell_eq)
qed

text \<open>
  C10. Normalisation (\<open>clean_cell\<close> in both scripts) makes a string absent exactly when
  its stripped text is empty or is "nan" in any mix of upper and lower case, and
  otherwise returns the stripped text. So a query whose venue name is "NaN" or " nan "
  and whose city is absent is the empty input: status "skipped-empty", and the state
  returned unchanged, no provider having been called.
\<close>

theorem nan_is_absent:
  "(clean_cell (CStr t) = None \<longleftrightarrow>
      strip t = [] \<or> strip t \<in> set [''nan'', ''naN'', ''nAn'', ''nAN'',
                                         ''Nan'', ''NaN'', ''NAn'', ''NAN''])
   \<and> (clean_cell (CStr t) = None \<or> clean_cell (CStr t) = Some (strip t))
   \<and> find_clean_cell (CStr t) = clean_cell (CStr t)
   \<and> clean_cell CNone = None \<and> clean_cell CNaN = None
   \<and> resolve_attraction (CStr ''NaN'') CNone api_key E s
        = (Inr (failure_result ''skipped-empty'' ''none''), s)
   \<and> resolve_attraction (CStr '' nan '') CNone api_key E s
        = (Inr (failure_result ''skipped-empty'' ''none''), s)
   \<and> get_venue_location (CStr ''NaN'') CNone api_key E s
        = (Inr (venue_failure ''skipped-empty'' ''none''), s)
   \<and> get_venue_location (CStr '' nan '') CNone api_key E s
        = (Inr (venue_failure ''skipped-empty'' ''none''), s)"
proof -
  have a: "clean_cell (CStr t) = None \<longleftrightarrow>
      strip t = [] \<or> strip t \<in> set [''nan'', ''naN'', ''nAn'', ''nAN'',
                                         ''Nan'', ''NaN'', ''NAn'', ''NAN'']"
    unfolding lower_nan_iff [symmetric] by (simp add: clean_cell_def Let_def)
  have b: "clean_cell (CStr t) = None \<or> clean_cell (CStr t) = Some (strip t)"
    by (simp add: clean_cell_def Let_def)
  have c: "clean_cell CNone = None" "clean_cell CNaN = None"
    by (simp_all add: clean_cell_def)
  have d: "clean_cell (CStr ''NaN'') = None" "clean_cell (CStr '' nan '') = None"
    by (simp_all add: clean_cell_def text_eval)
  have e: "resolve_attraction (CStr ''NaN'') CNone api_key E s
             = (Inr (failure_result ''skipped-empty'' ''none''), s)"
          "resolve_attraction (CStr '' nan '') CNone api_key E s
             = (Inr (failure_result ''skipped-empty'' ''none''), s)"
    by (simp_all add: resolve_attraction_def c d present_def)
  have f: "get_venue_location (CStr ''NaN'') CNone api_key E s
             = (Inr (venue_failure ''skipped-empty'' ''none''), s)"
          "get_venue_location (CStr '' nan '') CNone api_key E s
             = (Inr (venue_failure ''skipped-empty'' ''none''), s)"
    by (simp_all add: get_venue_location_def find_clean_cell_eq c d present_def)
  show ?thesis
    using a b c e f by (simp only: find_clean_cell_eq simp_thms)
qed

theorem nan_is_absent_witness:
  "clean_cell (CStr '' nAn '') = None
   \<and> clean_cell (CStr [CHR 0xA0, CHR ''n'', CHR ''a'', CHR ''n'', CHR 0x85]) = None
   \<and> clean_cell (CStr '' Nantes '') = Some ''Nantes''
   \<and> fst (resolve_attraction (CStr ''NaN'') CNone ''k''
            (example_env (by_endpoint (Inr one_candidate) (Inr street_details)
               (Inr one_search_result) (Inr geocoded_city))) fresh)
       = Inr (failure_result ''skipped-empty'' ''none'')
   \<and> calls (snd (resolve_attraction (CStr ''NaN'') CNone ''k''
            (example_env (by_endpoint (Inr one_candidate) (Inr street_details)
               (Inr one_search_result) (Inr geocoded_city))) fresh)) = []"
proof -
  let ?E = "example_env (by_endpoint (Inr one_candidate) (Inr street_details)
               (Inr one_search_result) (Inr geocoded_city))"
  have s1: "strip '' nAn '' = ''nAn''" and s2: "strip '' Nantes '' = ''Nantes''"
    and s3: "strip [CHR 0xA0, CHR ''n'', CHR ''a'', CHR ''n'', CHR 0x85] = ''nan''"
    by (simp_all add: strip_def is_space_def)
  have "clean_cell (CStr '' nAn '') = None"
    using nan_is_absent [of "'' nAn ''" "''k''" ?E fresh] by (simp add: s1)
  moreover have "clean_cell (CStr [CHR 0xA0, CHR ''n'', CHR ''a'', CHR ''n'', CHR 0x85]) = None"
    using nan_is_absent [of "[CHR 0xA0, CHR ''n'', CHR ''a'', CHR ''n'', CHR 0x85]"
            "''k''" ?E fresh]
    by (simp add: s3)
  moreover have "clean_cell (CStr '' Nantes '') = Some ''Nantes''"
    using nan_is_absent [of "'' Nantes ''" "''k''" ?E fresh] by (auto simp: s2)
  moreover have "resolve_attraction (CStr ''NaN'') CNone ''k'' ?E fresh
                   = (Inr (failure_result ''skipped-empty'' ''none''), fresh)"
    using nan_is_absent [of "'' nAn ''" "''k''" ?E fresh] by blast
  ultimately show ?thesis
    by (simp add: fresh_def)
qed

subsection \<open>What each adapter returns and which requests it sends\<close>

lemma place_details_D:
  "place_details pid key E s = (r, s') \<Longrightarrow>
     s' = s\<lparr>calls := calls s @ [details_request pid key]\<rparr>
     \<and> (\<forall>d. r = Inr (Some d) \<longrightarrow>
            status d = ''success'' \<and> source d = ''places_details'' \<and> place_id d = pid)"
  by (auto simp: place_details_def bind_io_http bind_e_def split: sum.splits if_splits)

lemma find_place_details_D:
  "find_place_details pid key E s = (r, s') \<Longrightarrow>
     s' = s\<lparr>calls := calls s @ [find_details_request pid key]\<rparr>
     \<and> (\<forall>d. r = Inr (Some d) \<longrightarrow> v_status d = ''success'' \<and> v_source d = ''places_details'')"
  by (auto simp: find_place_details_def bind_io_http bind_e_def split: sum.splits if_splits)

lemma findplace_returns:
  "\<exists>r s'. findplace_then_details q key E s = (Inr r, s')
       \<and> source r = ''places_findplace''
       \<and> city_cache s' = city_cache s
       \<and> (status r \<noteq> ''success'' \<longrightarrow> latitude r = JNull \<and> longitude r = JNull)
       \<and> (status r = ''success'' \<longrightarrow>
             calls s' = calls s @ [findplace_request q key, details_request (place_id r) key])
       \<and> (\<exists>ext. calls s' = calls s @ findplace_request q key # ext
              \<and> (\<forall>rq\<in>set ext. \<exists>pid. rq = details_request pid key))"
  apply (simp add: findplace_then_details_def try_except_apply bind_io_http bind_io_lift Let_def)
  apply (auto simp: bind_e_def failure_result_def bind_io_apply  split: sum.splits if_splits option.splits prod.splits
      dest!: place_details_D)
  done

lemma find_findplace_returns:
  "\<exists>r s'. find_venue_with_places_findplace q key E s = (Inr r, s')
       \<and> v_source r = ''places_findplace''
       \<and> city_cache s' = city_cache s
       \<and> (v_status r \<noteq> ''success'' \<longrightarrow> v_latitude r = JNull \<and> v_longitude r = JNull)
       \<and> (v_status r = ''success'' \<longrightarrow>
             (\<exists>pid. calls s' = calls s @ [find_findplace_request q key, find_details_request pid key]))
       \<and> (\<exists>ext. calls s' = calls s @ find_findplace_request q key # ext
              \<and> (\<forall>rq\<in>set ext. \<exists>pid. rq = find_details_request pid key))"
  apply (simp add: find_venue_with_places_findplace_def try_except_apply bind_io_http bind_io_lift Let_def)
  apply (auto simp: bind_e_def venue_failure_def bind_io_apply  split: sum.splits if_splits option.splits prod.splits
      dest!: find_place_details_D)
  done

lemma not_both_absent:
  "\<not> (clean_cell a = None \<and> clean_cell c = None)
     \<Longrightarrow> \<not> (\<not> present (clean_cell a) \<and> \<not> present (clean_cell c))"
  by (simp add: clean_cell_present)

lemma geocode_fallback_returns:
  "\<exists>r. geocode_fallback q key E s = (Inr r, s\<lparr>calls := calls s @ [geocode_request q key]\<rparr>)
       \<and> source r = ''geocoding_api''
       \<and> (status r \<noteq> ''success'' \<longrightarrow> latitude r = JNull \<and> longitude r = JNull)"
  by (auto simp: geocode_fallback_def try_except_apply bind_io_http bind_io_lift bind_e_def
                 failure_result_def
           split: sum.splits if_splits)

lemma geocode_venue_returns:
  "\<exists>r. geocode_venue q key E s = (Inr r, s\<lparr>calls := calls s @ [geocode_request q key]\<rparr>)
       \<and> v_source r = ''geocoding_api''
       \<and> (v_status r \<noteq> ''success'' \<longrightarrow> v_latitude r = JNull \<and> v_longitude r = JNull)"
  by (auto simp: geocode_venue_def try_except_apply bind_io_http bind_io_lift bind_e_def
                 venue_failure_def
           split: sum.splits if_splits)

lemma place_details_None_iff:
  "place_details pid key E s = (Inr None, s') \<longleftrightarrow>
     s' = s\<lparr>calls := calls s @ [details_request pid key]\<rparr>
     \<and> (\<exists>data st. transport E (calls s) (details_request pid key) = Inr data
            \<and> py_get data ''status'' JNull = Inr st \<and> st \<noteq> JStr ''OK'')"
  by (auto simp: place_details_def bind_io_http bind_e_def split: sum.splits if_splits)

lemma find_place_details_None_iff:
  "find_place_details pid key E s = (Inr None, s') \<longleftrightarrow>
     s' = s\<lparr>calls := calls s @ [find_details_request pid key]\<rparr>
     \<and> (\<exists>data st. transport E (calls s) (find_details_request pid key) = Inr data
            \<and> py_get data ''status'' JNull = Inr st \<and> st \<noteq> JStr ''OK'')"
  by (auto simp: find_place_details_def bind_io_http bind_e_def split: sum.splits if_splits)

text \<open>Unfolding sets for evaluating the model on the example providers.\<close>

lemmas io_eval = bind_io_apply http_get_json_apply try_except_apply bind_e_def Let_def
  clean_cell_examples find_clean_cell_eq digit_eval present_def make_query_def
  is_low_quality_address_def py_format_def py_float_def

lemmas adapters_eval = findplace_then_details_def place_details_def
  places_text_search_place_id_def geocode_fallback_def get_city_latlng_def city_bias_def
  findplace_request_def details_request_def textsearch_request_def geocode_request_def
  failure_result_def CITY_TEXTSEARCH_RADIUS_M_def PLACES_TYPE_def

lemmas find_eval = find_venue_with_places_findplace_def find_place_details_def
  find_places_text_search_place_id_def geocode_venue_def city_location_def
  find_findplace_request_def find_details_request_def textsearch_request_def
  geocode_request_def venue_failure_def

lemmas example_eval = example_env_def by_endpoint_def fresh_def zero_results_def
  one_candidate_def one_search_result_def point_def street_details_def city_details_def
  details_without_coordinates_def geocoded_city_def flaky_geocoder_def

subsection \<open>The tiers\<close>

text \<open>
  C4. When the query is not empty and the direct lookup of tier 1 (\<open>findplace_then_details\<close>,
  in find.py \<open>find_venue_with_places_findplace\<close>) reports status "success" with an
  address that the classifier does not judge locality-level, the resolver returns that
  very result in the state tier 1 left: the requests sent are the find-place request and
  one details request, so there is no text search and no geocoding, and the city cache
  is as it was.
\<close>

theorem tier1_early_return:
  "(\<not> (clean_cell a = None \<and> clean_cell c = None)
     \<and> q = make_query (clean_cell a) (clean_cell c)
     \<and> findplace_then_details q api_key E s = (Inr r1, s1)
     \<and> status r1 = ''success'' \<and> \<not> is_low_quality_address (formatted_address r1)
    \<longrightarrow> resolve_attraction a c api_key E s = (Inr r1, s1)
       \<and> calls s1 = calls s @ [findplace_request q api_key,
                                details_request (place_id r1) api_key]
       \<and> city_cache s1 = city_cache s)
   \<and> (\<not> (find_clean_cell a = None \<and> find_clean_cell c = None)
     \<and> q' = make_query (find_clean_cell a) (find_clean_cell c)
     \<and> find_venue_with_places_findplace q' api_key E s = (Inr v1, t1)
     \<and> v_status v1 = ''success'' \<and> \<not> is_low_quality_address (v_formatted_address v1)
    \<longrightarrow> get_venue_location a c api_key E s = (Inr v1, t1)
       \<and> (\<exists>pid. calls t1 = calls s @ [find_findplace_request q' api_key,
                                        find_details_request pid api_key])
       \<and> city_cache t1 = city_cache s)"
proof (intro conjI impI)
  assume h: "\<not> (clean_cell a = None \<and> clean_cell c = None)
     \<and> q = make_query (clean_cell a) (clean_cell c)
     \<and> findplace_then_details q api_key E s = (Inr r1, s1)
     \<and> status r1 = ''success'' \<and> \<not> is_low_quality_address (formatted_address r1)"
  then show "resolve_attraction a c api_key E s = (Inr r1, s1)"
    using not_both_absent [of a c]
    by (auto simp: resolve_attraction_def bind_io_apply Let_def)
  from h findplace_returns [of q api_key E s]
  show "calls s1 = calls s @ [findplace_request q api_key, details_request (place_id r1) api_key]"
    and "city_cache s1 = city_cache s"
    by auto
next
  assume h: "\<not> (find_clean_cell a = None \<and> find_clean_cell c = None)
     \<and> q' = make_query (find_clean_cell a) (find_clean_cell c)
     \<and> find_venue_with_places_findplace q' api_key E s = (Inr v1, t1)
     \<and> v_status v1 = ''success'' \<and> \<not> is_low_quality_address (v_formatted_address v1)"
  then show "get_venue_location a c api_key E s = (Inr v1, t1)"
    using not_both_absent [of a c]
    by (auto simp: get_venue_location_def bind_io_apply Let_def find_clean_cell_eq)
  from h find_findplace_returns [of q' api_key E s]
  show "\<exists>pid. calls t1 = calls s @ [find_findplace_request q' api_key,
                                        find_details_request pid api_key]"
    and "city_cache t1 = city_cache s"
    by auto
qed

theorem tier1_early_return_witness:
  "fst (resolve_attraction (CStr ''Louvre'') (CStr ''Paris'') ''k''
         (example_env (by_endpoint (Inr one_candidate) (Inr street_details)
            (Inr zero_results) (Inr zero_results))) fresh)
     = Inr \<lparr>latitude = JFloat 48, longitude = JFloat 2,
            formatted_address = JStr ''99 Rue de Rivoli, Paris'',
            resolved_name = JStr ''Louvre'', status = ''success'',
            source = ''places_findplace'', place_id = JStr ''p1''\<rparr>
   \<and> calls (snd (resolve_attraction (CStr ''Louvre'') (CStr ''Paris'') ''k''
         (example_env (by_endpoint (Inr one_candidate) (Inr street_details)
            (Inr zero_results) (Inr zero_results))) fresh))
     = [findplace_request ''Louvre, Paris'' ''k'', details_request (JStr ''p1'') ''k'']
   \<and> fst (get_venue_location (CStr ''Louvre'') (CStr ''Paris'') ''k''
         (example_env (by_endpoint (Inr one_candidate) (Inr street_details)
            (Inr zero_results) (Inr zero_results))) fresh)
     = Inr \<lparr>v_latitude = JFloat 48, v_longitude = JFloat 2,
            v_formatted_address = JStr ''99 Rue de Rivoli, Paris'',
            venue_name = JStr ''Louvre'', v_status = ''success'',
            v_source = ''places_findplace''\<rparr>"
proof -
  let ?E = "example_env (by_endpoint (Inr one_candidate) (Inr street_details)
            (Inr zero_results) (Inr zero_results))"
  let ?r = "\<lparr>latitude = JFloat 48, longitude = JFloat 2,
            formatted_address = JStr ''99 Rue de Rivoli, Paris'',
            resolved_name = JStr ''Louvre'', status = ''success'',
            source = ''places_findplace'', place_id = JStr ''p1''\<rparr>"
  let ?v = "\<lparr>v_latitude = JFloat 48, v_longitude = JFloat 2,
            v_formatted_address = JStr ''99 Rue de Rivoli, Paris'',
            venue_name = JStr ''Louvre'', v_status = ''success'',
            v_source = ''places_findplace''\<rparr>"
  let ?s = "fresh\<lparr>calls := [findplace_request ''Louvre, Paris'' ''k'',
                               details_request (JStr ''p1'') ''k'']\<rparr>"
  let ?t = "fresh\<lparr>calls := [find_findplace_request ''Louvre, Paris'' ''k'',
                               find_details_request (JStr ''p1'') ''k'']\<rparr>"
  have c: "clean_cell (CStr ''Louvre'') = Some ''Louvre''"
          "clean_cell (CStr ''Paris'') = Some ''Paris''"
    by (simp_all add: io_eval)
  have q: "make_query (Some ''Louvre'') (Some ''Paris'') = ''Louvre, Paris''"
    by (simp add: io_eval)
  have f: "findplace_then_details ''Louvre, Paris'' ''k'' ?E fresh = (Inr ?r, ?s)"
    by (simp add: io_eval adapters_eval example_eval)
  have g: "find_venue_with_places_findplace ''Louvre, Paris'' ''k'' ?E fresh = (Inr ?v, ?t)"
    by (simp add: io_eval find_eval example_eval)
  have l: "\<not> is_low_quality_address (JStr ''99 Rue de Rivoli, Paris'')"
    by (simp add: io_eval)
  have "resolve_attraction (CStr ''Louvre'') (CStr ''Paris'') ''k'' ?E fresh = (Inr ?r, ?s)"
       "get_venue_location (CStr ''Louvre'') (CStr ''Paris'') ''k'' ?E fresh = (Inr ?v, ?t)"
    using tier1_early_return [of "CStr ''Louvre''" "CStr ''Paris''" "''Louvre, Paris''"
            "''k''" ?E fresh ?r ?s "''Louvre, Paris''" ?v ?t] c q f g l
    by (simp_all add: find_clean_cell_eq)
  then show ?thesis
    by (simp add: fresh_def)
qed


text \<open>
  C5. When tier 1 was not accepted, the city step did not raise, the text search
  returned a truthy place identifier and the details fetch for it reports "success",
  the resolver returns that details record, with source "places_textsearch" when its
  address is not locality-level and "places_textsearch_low_quality" when it is. The
  low-quality record is returned, not dropped.
\<close>

theorem tier2_details_returned:
  "(\<not> (clean_cell a = None \<and> clean_cell c = None)
     \<and> q = make_query (clean_cell a) (clean_cell c)
     \<and> findplace_then_details q api_key E s = (Inr r1, s1)
     \<and> \<not> (status r1 = ''success'' \<and> \<not> is_low_quality_address (formatted_address r1))
     \<and> city_bias (clean_cell c) api_key E s1 = (Inr loc, s2)
     \<and> places_text_search_place_id q api_key E loc CITY_TEXTSEARCH_RADIUS_M
          (Some PLACES_TYPE) s2 = (Inr pid, s3)
     \<and> truthy pid
     \<and> place_details pid api_key E s3 = (Inr (Some d), s4)
     \<and> status d = ''success''
    \<longrightarrow> resolve_attraction a c api_key E s =
          (Inr (d\<lparr>source := (if is_low_quality_address (formatted_address d)
                              then ''places_textsearch_low_quality''
                              else ''places_textsearch'')\<rparr>), s4))
   \<and> (\<not> (find_clean_cell a = None \<and> find_clean_cell c = None)
     \<and> q' = make_query (find_clean_cell a) (find_clean_cell c)
     \<and> find_venue_with_places_findplace q' api_key E s = (Inr v1, t1)
     \<and> \<not> (v_status v1 = ''success'' \<and> \<not> is_low_quality_address (v_formatted_address v1))
     \<and> city_location (find_clean_cell c) api_key E t1 = (Inr loc', t2)
     \<and> find_places_text_search_place_id q' api_key E loc' 50000
          (Some ''tourist_attraction'') t2 = (Inr pid', t3)
     \<and> truthy pid'
     \<and> find_place_details pid' api_key E t3 = (Inr (Some d'), t4)
     \<and> v_status d' = ''success''
    \<longrightarrow> get_venue_location a c api_key E s =
          (Inr (d'\<lparr>v_source := (if is_low_quality_address (v_formatted_address d')
                              then ''places_textsearch_low_quality''
                              else ''places_textsearch'')\<rparr>), t4))"
proof (intro conjI impI)
  assume "\<not> (clean_cell a = None \<and> clean_cell c = None)
     \<and> q = make_query (clean_cell a) (clean_cell c)
     \<and> findplace_then_details q api_key E s = (Inr r1, s1)
     \<and> \<not> (status r1 = ''success'' \<and> \<not> is_low_quality_address (formatted_address r1))
     \<and> city_bias (clean_cell c) api_key E s1 = (Inr loc, s2)
     \<and> places_text_search_place_id q api_key E loc CITY_TEXTSEARCH_RADIUS_M
          (Some PLACES_TYPE) s2 = (Inr pid, s3)
     \<and> truthy pid
     \<and> place_details pid api_key E s3 = (Inr (Some d), s4)
     \<and> status d = ''success''"
  then show "resolve_attraction a c api_key E s =
          (Inr (d\<lparr>source := (if is_low_quality_address (formatted_address d)
                              then ''places_textsearch_low_quality''
                              else ''places_textsearch'')\<rparr>), s4)"
    using not_both_absent [of a c]
    by (auto simp: resolve_attraction_def bind_io_apply Let_def)
next
  assume "\<not> (find_clean_cell a = None \<and> find_clean_cell c = None)
     \<and> q' = make_query (find_clean_cell a) (find_clean_cell c)
     \<and> find_venue_with_places_findplace q' api_key E s = (Inr v1, t1)
     \<and> \<not> (v_status v1 = ''success'' \<and> \<not> is_low_quality_address (v_formatted_address v1))
     \<and> city_location (find_clean_cell c) api_key E t1 = (Inr loc', t2)
     \<and> find_places_text_search_place_id q' api_key E loc' 50000
          (Some ''tourist_attraction'') t2 = (Inr pid', t3)
     \<and> truthy pid'
     \<and> find_place_details pid' api_key E t3 = (Inr (Some d'), t4)
     \<and> v_status d' = ''success''"
  then show "get_venue_location a c api_key E s =
          (Inr (d'\<lparr>v_source := (if is_low_quality_address (v_formatted_address d')
                              then ''places_textsearch_low_quality''
                              else ''places_textsearch'')\<rparr>), t4)"
    using not_both_absent [of a c]
    by (auto simp: get_venue_location_def bind_io_apply Let_def find_clean_cell_eq)
qed


theorem tier2_details_returned_witness:
  "fst (resolve_attraction (CStr ''Louvre'') (CStr ''Paris'') ''k''
         (example_env (by_endpoint (Inr zero_results) (Inr city_details)
            (Inr one_search_result) (Inr zero_results))) fresh)
     = Inr \<lparr>latitude = JFloat 48, longitude = JFloat 2,
            formatted_address = JStr ''Paris, France'',
            resolved_name = JStr ''Paris'', status = ''success'',
            source = ''places_textsearch_low_quality'', place_id = JStr ''p2''\<rparr>
   \<and> fst (resolve_attraction (CStr ''Louvre'') (CStr ''Paris'') ''k''
         (example_env (by_endpoint (Inr zero_results) (Inr street_details)
            (Inr one_search_result) (Inr zero_results))) fresh)
     = Inr \<lparr>latitude = JFloat 48, longitude = JFloat 2,
            formatted_address = JStr ''99 Rue de Rivoli, Paris'',
            resolved_name = JStr ''Louvre'', status = ''success'',
            source = ''places_textsearch'', place_id = JStr ''p2''\<rparr>
   \<and> fst (get_venue_location (CStr ''Louvre'') (CStr ''Paris'') ''k''
         (example_env (by_endpoint (Inr zero_results) (Inr city_details)
            (Inr one_search_result) (Inr zero_results))) fresh)
     = Inr \<lparr>v_latitude = JFloat 48, v_longitude = JFloat 2,
            v_formatted_address = JStr ''Paris, France'',
            venue_name = JStr ''Paris'', v_status = ''success'',
            v_source = ''places_textsearch_low_quality''\<rparr>"
proof -
  let ?E = "example_env (by_endpoint (Inr zero_results) (Inr city_details)
            (Inr one_search_result) (Inr zero_results))"
  let ?F = "example_env (by_endpoint (Inr zero_results) (Inr street_details)
            (Inr one_search_result) (Inr zero_results))"
  let ?q = "''Louvre, Paris''"
  let ?fp = "findplace_request ?q ''k''"
  let ?gc = "geocode_request ''Paris'' ''k''"
  let ?ts = "textsearch_request ?q ''k'' None 50000 (Some ''tourist_attraction'')"
  let ?dt = "details_request (JStr ''p2'') ''k''"
  let ?r1 = "failure_result ''not_found_in_places:ZERO_RESULTS'' ''places_findplace''"
  let ?d = "\<lparr>latitude = JFloat 48, longitude = JFloat 2,
            formatted_address = JStr ''Paris, France'',
            resolved_name = JStr ''Paris'', status = ''success'',
            source = ''places_details'', place_id = JStr ''p2''\<rparr>"
  let ?d' = "\<lparr>latitude = JFloat 48, longitude = JFloat 2,
            formatted_address = JStr ''99 Rue de Rivoli, Paris'',
            resolved_name = JStr ''Louvre'', status = ''success'',
            source = ''places_details'', place_id = JStr ''p2''\<rparr>"
  have c: "clean_cell (CStr ''Louvre'') = Some ''Louvre''"
          "clean_cell (CStr ''Paris'') = Some ''Paris''"
          "make_query (Some ''Louvre'') (Some ''Paris'') = ?q"
    by (simp_all add: io_eval)
  have l: "is_low_quality_address (JStr ''Paris, France'')"
          "\<not> is_low_quality_address (JStr ''99 Rue de Rivoli, Paris'')"
          "status ?r1 \<noteq> ''success''"
    by (simp_all add: io_eval failure_result_def)
  have e1: "findplace_then_details ?q ''k'' ?E fresh = (Inr ?r1, fresh\<lparr>calls := [?fp]\<rparr>)"
    by (simp add: io_eval adapters_eval example_eval)
  have e2: "city_bias (Some ''Paris'') ''k'' ?E (fresh\<lparr>calls := [?fp]\<rparr>)
              = (Inr None, fresh\<lparr>calls := [?fp, ?gc]\<rparr>)"
    by (simp add: io_eval adapters_eval example_eval)
  have e3: "places_text_search_place_id ?q ''k'' ?E None CITY_TEXTSEARCH_RADIUS_M
              (Some PLACES_TYPE) (fresh\<lparr>calls := [?fp, ?gc]\<rparr>)
              = (Inr (JStr ''p2''), fresh\<lparr>calls := [?fp, ?gc, ?ts]\<rparr>)"
    by (simp add: io_eval adapters_eval example_eval)
  have e4: "place_details (JStr ''p2'') ''k'' ?E (fresh\<lparr>calls := [?fp, ?gc, ?ts]\<rparr>)
              = (Inr (Some ?d), fresh\<lparr>calls := [?fp, ?gc, ?ts, ?dt]\<rparr>)"
    by (simp add: io_eval adapters_eval example_eval)
  have f1: "findplace_then_details ?q ''k'' ?F fresh = (Inr ?r1, fresh\<lparr>calls := [?fp]\<rparr>)"
    by (simp add: io_eval adapters_eval example_eval)
  have f2: "city_bias (Some ''Paris'') ''k'' ?F (fresh\<lparr>calls := [?fp]\<rparr>)
              = (Inr None, fresh\<lparr>calls := [?fp, ?gc]\<rparr>)"
    by (simp add: io_eval adapters_eval example_eval)
  have f3: "places_text_search_place_id ?q ''k'' ?F None CITY_TEXTSEARCH_RADIUS_M
              (Some PLACES_TYPE) (fresh\<lparr>calls := [?fp, ?gc]\<rparr>)
              = (Inr (JStr ''p2''), fresh\<lparr>calls := [?fp, ?gc, ?ts]\<rparr>)"
    by (simp add: io_eval adapters_eval example_eval)
  have f4: "place_details (JStr ''p2'') ''k'' ?F (fresh\<lparr>calls := [?fp, ?gc, ?ts]\<rparr>)
              = (Inr (Some ?d'), fresh\<lparr>calls := [?fp, ?gc, ?ts, ?dt]\<rparr>)"
    by (simp add: io_eval adapters_eval example_eval)
  let ?fp' = "find_findplace_request ?q ''k''"
  let ?dt' = "find_details_request (JStr ''p2'') ''k''"
  let ?v1 = "venue_failure ''not_found_in_places:ZERO_RESULTS'' ''places_findplace''"
  let ?v = "\<lparr>v_latitude = JFloat 48, v_longitude = JFloat 2,
            v_formatted_address = JStr ''Paris, France'',
            venue_name = JStr ''Paris'', v_status = ''success'',
            v_source = ''places_details''\<rparr>"
  have g0: "v_status ?v1 \<noteq> ''success''"
    by (simp add: venue_failure_def)
  have g1: "find_venue_with_places_findplace ?q ''k'' ?E fresh
              = (Inr ?v1, fresh\<lparr>calls := [?fp']\<rparr>)"
    by (simp add: io_eval find_eval example_eval)
  have g2: "city_location (Some ''Paris'') ''k'' ?E (fresh\<lparr>calls := [?fp']\<rparr>)
              = (Inr None, fresh\<lparr>calls := [?fp', ?gc]\<rparr>)"
    by (simp add: io_eval find_eval example_eval)
  have g3: "find_places_text_search_place_id ?q ''k'' ?E None 50000
              (Some ''tourist_attraction'') (fresh\<lparr>calls := [?fp', ?gc]\<rparr>)
              = (Inr (JStr ''p2''), fresh\<lparr>calls := [?fp', ?gc, ?ts]\<rparr>)"
    by (simp add: io_eval find_eval example_eval)
  have g4: "find_place_details (JStr ''p2'') ''k'' ?E (fresh\<lparr>calls := [?fp', ?gc, ?ts]\<rparr>)
              = (Inr (Some ?v), fresh\<lparr>calls := [?fp', ?gc, ?ts, ?dt']\<rparr>)"
    by (simp add: io_eval find_eval example_eval)
  have "resolve_attraction (CStr ''Louvre'') (CStr ''Paris'') ''k'' ?E fresh
          = (Inr (?d\<lparr>source := ''places_textsearch_low_quality''\<rparr>),
             fresh\<lparr>calls := [?fp, ?gc, ?ts, ?dt]\<rparr>)"
    using tier2_details_returned [of "CStr ''Louvre''" "CStr ''Paris''" ?q "''k''" ?E fresh
            ?r1 "fresh\<lparr>calls := [?fp]\<rparr>" None "fresh\<lparr>calls := [?fp, ?gc]\<rparr>"
            "JStr ''p2''" "fresh\<lparr>calls := [?fp, ?gc, ?ts]\<rparr>" ?d
            "fresh\<lparr>calls := [?fp, ?gc, ?ts, ?dt]\<rparr>"]
          c l e1 e2 e3 e4
    by simp
  moreover have "resolve_attraction (CStr ''Louvre'') (CStr ''Paris'') ''k'' ?F fresh
          = (Inr (?d'\<lparr>source := ''places_textsearch''\<rparr>),
             fresh\<lparr>calls := [?fp, ?gc, ?ts, ?dt]\<rparr>)"
    using tier2_details_returned [of "CStr ''Louvre''" "CStr ''Paris''" ?q "''k''" ?F fresh
            ?r1 "fresh\<lparr>calls := [?fp]\<rparr>" None "fresh\<lparr>calls := [?fp, ?gc]\<rparr>"
            "JStr ''p2''" "fresh\<lparr>calls := [?fp, ?gc, ?ts]\<rparr>" ?d'
            "fresh\<lparr>calls := [?fp, ?gc, ?ts, ?dt]\<rparr>"]
          c l f1 f2 f3 f4
    by simp
  moreover have "get_venue_location (CStr ''Louvre'') (CStr ''Paris'') ''k'' ?E fresh
          = (Inr (?v\<lparr>v_source := ''places_textsearch_low_quality''\<rparr>),
             fresh\<lparr>calls := [?fp', ?gc, ?ts, ?dt']\<rparr>)"
    using tier2_details_returned [where a = "CStr ''Louvre''" and c = "CStr ''Paris''"
            and q' = ?q and api_key = "''k''" and E = ?E and s = fresh and ?v1.0 = ?v1
            and ?t1.0 = "fresh\<lparr>calls := [?fp']\<rparr>" and loc' = None
            and ?t2.0 = "fresh\<lparr>calls := [?fp', ?gc]\<rparr>" and pid' = "JStr ''p2''"
            and ?t3.0 = "fresh\<lparr>calls := [?fp', ?gc, ?ts]\<rparr>" and d' = ?v
            and ?t4.0 = "fresh\<lparr>calls := [?fp', ?gc, ?ts, ?dt']\<rparr>"]
          c l g0 g1 g2 g3 g4
    by (simp add: find_clean_cell_eq)
  ultimately show ?thesis
    by simp
qed

text \<open>
  C6. When tier 1 was not accepted, the city step did not raise and the text search
  returned no place identifier (\<open>None\<close> or another falsy value), the resolver's
  outcome is the outcome of the geocoding adapter on the same query, unchanged: one
  geocoding request is added, the adapter does not raise, and the record it returns,
  success or failure, has source "geocoding_api".
\<close>

theorem no_candidate_falls_back:
  "(\<not> (clean_cell a = None \<and> clean_cell c = None)
     \<and> q = make_query (clean_cell a) (clean_cell c)
     \<and> findplace_then_details q api_key E s = (Inr r1, s1)
     \<and> \<not> (status r1 = ''success'' \<and> \<not> is_low_quality_address (formatted_address r1))
     \<and> city_bias (clean_cell c) api_key E s1 = (Inr loc, s2)
     \<and> places_text_search_place_id q api_key E loc CITY_TEXTSEARCH_RADIUS_M
          (Some PLACES_TYPE) s2 = (Inr pid, s3)
     \<and> \<not> truthy pid
    \<longrightarrow> resolve_attraction a c api_key E s = geocode_fallback q api_key E s3
       \<and> (\<exists>r. geocode_fallback q api_key E s3
                  = (Inr r, s3\<lparr>calls := calls s3 @ [geocode_request q api_key]\<rparr>)
              \<and> source r = ''geocoding_api''))
   \<and> (\<not> (find_clean_cell a = None \<and> find_clean_cell c = None)
     \<and> q' = make_query (find_clean_cell a) (find_clean_cell c)
     \<and> find_venue_with_places_findplace q' api_key E s = (Inr v1, t1)
     \<and> \<not> (v_status v1 = ''success'' \<and> \<not> is_low_quality_address (v_formatted_address v1))
     \<and> city_location (find_clean_cell c) api_key E t1 = (Inr loc', t2)
     \<and> find_places_text_search_place_id q' api_key E loc' 50000
          (Some ''tourist_attraction'') t2 = (Inr pid', t3)
     \<and> \<not> truthy pid'
    \<longrightarrow> get_venue_location a c api_key E s = geocode_venue q' api_key E t3
       \<and> (\<exists>r. geocode_venue q' api_key E t3
                  = (Inr r, t3\<lparr>calls := calls t3 @ [geocode_request q' api_key]\<rparr>)
              \<and> v_source r = ''geocoding_api''))"
proof (intro conjI impI)
  assume "\<not> (clean_cell a = None \<and> clean_cell c = None)
     \<and> q = make_query (clean_cell a) (clean_cell c)
     \<and> findplace_then_details q api_key E s = (Inr r1, s1)
     \<and> \<not> (status r1 = ''success'' \<and> \<not> is_low_quality_address (formatted_address r1))
     \<and> city_bias (clean_cell c) api_key E s1 = (Inr loc, s2)
     \<and> places_text_search_place_id q api_key E loc CITY_TEXTSEARCH_RADIUS_M
          (Some PLACES_TYPE) s2 = (Inr pid, s3)
     \<and> \<not> truthy pid"
  then show "resolve_attraction a c api_key E s = geocode_fallback q api_key E s3"
    using not_both_absent [of a c]
    by (auto simp: resolve_attraction_def bind_io_apply Let_def)
  show "\<exists>r. geocode_fallback q api_key E s3
                  = (Inr r, s3\<lparr>calls := calls s3 @ [geocode_request q api_key]\<rparr>)
              \<and> source r = ''geocoding_api''"
    using geocode_fallback_returns [of q api_key E s3] by blast
next
  assume "\<not> (find_clean_cell a = None \<and> find_clean_cell c = None)
     \<and> q' = make_query (find_clean_cell a) (find_clean_cell c)
     \<and> find_venue_with_places_findplace q' api_key E s = (Inr v1, t1)
     \<and> \<not> (v_status v1 = ''success'' \<and> \<not> is_low_quality_address (v_formatted_address v1))
     \<and> city_location (find_clean_cell c) api_key E t1 = (Inr loc', t2)
     \<and> find_places_text_search_place_id q' api_key E loc' 50000
          (Some ''tourist_attraction'') t2 = (Inr pid', t3)
     \<and> \<not> truthy pid'"
  then show "get_venue_location a c api_key E s = geocode_venue q' api_key E t3"
    using not_both_absent [of a c]
    by (auto simp: get_venue_location_def bind_io_apply Let_def find_clean_cell_eq)
  show "\<exists>r. geocode_venue q' api_key E t3
                  = (Inr r, t3\<lparr>calls := calls t3 @ [geocode_request q' api_key]\<rparr>)
              \<and> v_source r = ''geocoding_api''"
    using geocode_venue_returns [of q' api_key E t3] by blast
qed

theorem no_candidate_falls_back_witness:
  "resolve_attraction (CStr ''Louvre'') CNone ''k''
         (example_env (by_endpoint (Inr zero_results) (Inr zero_results)
            (Inr zero_results) (Inr zero_results))) fresh
     = geocode_fallback ''Louvre'' ''k''
         (example_env (by_endpoint (Inr zero_results) (Inr zero_results)
            (Inr zero_results) (Inr zero_results)))
         (fresh\<lparr>calls := [findplace_request ''Louvre'' ''k'',
                           textsearch_request ''Louvre'' ''k'' None 50000
                             (Some ''tourist_attraction'')]\<rparr>)
   \<and> fst (resolve_attraction (CStr ''Louvre'') CNone ''k''
         (example_env (by_endpoint (Inr zero_results) (Inr zero_results)
            (Inr zero_results) (Inr zero_results))) fresh)
     = Inr (failure_result ''Error: ZERO_RESULTS'' ''geocoding_api'')
   \<and> fst (resolve_attraction (CStr ''Louvre'') CNone ''k''
         (example_env (by_endpoint (Inr zero_results) (Inr zero_results)
            (Inr zero_results) (Inr geocoded_city))) fresh)
     = Inr \<lparr>latitude = JFloat 48, longitude = JFloat 2,
            formatted_address = JStr ''Paris, France'', resolved_name = JNull,
            status = ''success'', source = ''geocoding_api'', place_id = JNull\<rparr>
   \<and> fst (get_venue_location (CStr ''Louvre'') CNone ''k''
         (example_env (by_endpoint (Inr zero_results) (Inr zero_results)
            (Inr zero_results) (Inr zero_results))) fresh)
     = Inr (venue_failure ''Error: ZERO_RESULTS'' ''geocoding_api'')"
proof -
  let ?E = "example_env (by_endpoint (Inr zero_results) (Inr zero_results)
            (Inr zero_results) (Inr zero_results))"
  let ?F = "example_env (by_endpoint (Inr zero_results) (Inr zero_results)
            (Inr zero_results) (Inr geocoded_city))"
  let ?q = "''Louvre''"
  let ?fp = "findplace_request ?q ''k''"
  let ?fp' = "find_findplace_request ?q ''k''"
  let ?ts = "textsearch_request ?q ''k'' None 50000 (Some ''tourist_attraction'')"
  let ?r1 = "failure_result ''not_found_in_places:ZERO_RESULTS'' ''places_findplace''"
  let ?v1 = "venue_failure ''not_found_in_places:ZERO_RESULTS'' ''places_findplace''"
  have c: "clean_cell (CStr ''Louvre'') = Some ''Louvre''" "clean_cell CNone = None"
          "make_query (Some ''Louvre'') None = ?q"
    by (simp_all add: io_eval)
  have l: "status ?r1 \<noteq> ''success''" "v_status ?v1 \<noteq> ''success''"
    by (simp_all add: failure_result_def venue_failure_def)
  have e1: "findplace_then_details ?q ''k'' ?E fresh = (Inr ?r1, fresh\<lparr>calls := [?fp]\<rparr>)"
    by (simp add: io_eval adapters_eval example_eval)
  have e2: "city_bias None ''k'' ?E (fresh\<lparr>calls := [?fp]\<rparr>)
              = (Inr None, fresh\<lparr>calls := [?fp]\<rparr>)"
    by (simp add: io_eval adapters_eval example_eval)
  have e3: "places_text_search_place_id ?q ''k'' ?E None CITY_TEXTSEARCH_RADIUS_M
              (Some PLACES_TYPE) (fresh\<lparr>calls := [?fp]\<rparr>)
              = (Inr JNull, fresh\<lparr>calls := [?fp, ?ts]\<rparr>)"
    by (simp add: io_eval adapters_eval example_eval)
  have e4: "geocode_fallback ?q ''k'' ?E (fresh\<lparr>calls := [?fp, ?ts]\<rparr>)
              = (Inr (failure_result ''Error: ZERO_RESULTS'' ''geocoding_api''),
                 fresh\<lparr>calls := [?fp, ?ts, geocode_request ?q ''k'']\<rparr>)"
    by (simp add: io_eval adapters_eval example_eval)
  have f1: "findplace_then_details ?q ''k'' ?F fresh = (Inr ?r1, fresh\<lparr>calls := [?fp]\<rparr>)"
    by (simp add: io_eval adapters_eval example_eval)
  have f2: "city_bias None ''k'' ?F (fresh\<lparr>calls := [?fp]\<rparr>)
              = (Inr None, fresh\<lparr>calls := [?fp]\<rparr>)"
    by (simp add: io_eval adapters_eval example_eval)
  have f3: "places_text_search_place_id ?q ''k'' ?F None CITY_TEXTSEARCH_RADIUS_M
              (Some PLACES_TYPE) (fresh\<lparr>calls := [?fp]\<rparr>)
              = (Inr JNull, fresh\<lparr>calls := [?fp, ?ts]\<rparr>)"
    by (simp add: io_eval adapters_eval example_eval)
  have f4: "fst (geocode_fallback ?q ''k'' ?F (fresh\<lparr>calls := [?fp, ?ts]\<rparr>))
              = Inr \<lparr>latitude = JFloat 48, longitude = JFloat 2,
                  formatted_address = JStr ''Paris, France'', resolved_name = JNull,
                  status = ''success'', source = ''geocoding_api'', place_id = JNull\<rparr>"
    by (simp add: io_eval adapters_eval example_eval)
  have g1: "find_venue_with_places_findplace ?q ''k'' ?E fresh
              = (Inr ?v1, fresh\<lparr>calls := [?fp']\<rparr>)"
    by (simp add: io_eval find_eval example_eval)
  have g2: "city_location None ''k'' ?E (fresh\<lparr>calls := [?fp']\<rparr>)
              = (Inr None, fresh\<lparr>calls := [?fp']\<rparr>)"
    by (simp add: io_eval find_eval example_eval)
  have g3: "find_places_text_search_place_id ?q ''k'' ?E None 50000
              (Some ''tourist_attraction'') (fresh\<lparr>calls := [?fp']\<rparr>)
              = (Inr JNull, fresh\<lparr>calls := [?fp', ?ts]\<rparr>)"
    by (simp add: io_eval find_eval example_eval)
  have g4: "fst (geocode_venue ?q ''k'' ?E (fresh\<lparr>calls := [?fp', ?ts]\<rparr>))
              = Inr (venue_failure ''Error: ZERO_RESULTS'' ''geocoding_api'')"
    by (simp add: io_eval find_eval example_eval)
  have a: "resolve_attraction (CStr ''Louvre'') CNone ''k'' ?E fresh
             = geocode_fallback ?q ''k'' ?E (fresh\<lparr>calls := [?fp, ?ts]\<rparr>)"
    using no_candidate_falls_back [where a = "CStr ''Louvre''" and c = CNone and q = ?q
            and api_key = "''k''" and E = ?E and s = fresh and ?r1.0 = ?r1
            and ?s1.0 = "fresh\<lparr>calls := [?fp]\<rparr>" and loc = None
            and ?s2.0 = "fresh\<lparr>calls := [?fp]\<rparr>" and pid = JNull
            and ?s3.0 = "fresh\<lparr>calls := [?fp, ?ts]\<rparr>"]
          c l e1 e2 e3
    by simp
  have b: "resolve_attraction (CStr ''Louvre'') CNone ''k'' ?F fresh
             = geocode_fallback ?q ''k'' ?F (fresh\<lparr>calls := [?fp, ?ts]\<rparr>)"
    using no_candidate_falls_back [where a = "CStr ''Louvre''" and c = CNone and q = ?q
            and api_key = "''k''" and E = ?F and s = fresh and ?r1.0 = ?r1
            and ?s1.0 = "fresh\<lparr>calls := [?fp]\<rparr>" and loc = None
            and ?s2.0 = "fresh\<lparr>calls := [?fp]\<rparr>" and pid = JNull
            and ?s3.0 = "fresh\<lparr>calls := [?fp, ?ts]\<rparr>"]
          c l f1 f2 f3
    by simp
  have d: "get_venue_location (CStr ''Louvre'') CNone ''k'' ?E fresh
             = geocode_venue ?q ''k'' ?E (fresh\<lparr>calls := [?fp', ?ts]\<rparr>)"
    using no_candidate_falls_back [where a = "CStr ''Louvre''" and c = CNone and q' = ?q
            and api_key = "''k''" and E = ?E and s = fresh and ?v1.0 = ?v1
            and ?t1.0 = "fresh\<lparr>calls := [?fp']\<rparr>" and loc' = None
            and ?t2.0 = "fresh\<lparr>calls := [?fp']\<rparr>" and pid' = JNull
            and ?t3.0 = "fresh\<lparr>calls := [?fp', ?ts]\<rparr>"]
          c l g1 g2 g3
    by (simp add: find_clean_cell_eq)
  show ?thesis
    unfolding a b d using e4 f4 g4 by (simp add: textsearch_request_def)
qed

text \<open>
  C9. When the text search returned a place identifier but the details endpoint answers
  with a status other than "OK", \<open>place_details\<close> returns \<open>None\<close>, and the resolver
  does not return a tier-2 failure: its outcome is the outcome of the geocoding adapter
  on the original query, a record with source "geocoding_api".
\<close>

theorem failed_details_falls_back:
  "(\<not> (clean_cell a = None \<and> clean_cell c = None)
     \<and> q = make_query (clean_cell a) (clean_cell c)
     \<and> findplace_then_details q api_key E s = (Inr r1, s1)
     \<and> \<not> (status r1 = ''success'' \<and> \<not> is_low_quality_address (formatted_address r1))
     \<and> city_bias (clean_cell c) api_key E s1 = (Inr loc, s2)
     \<and> places_text_search_place_id q api_key E loc CITY_TEXTSEARCH_RADIUS_M
          (Some PLACES_TYPE) s2 = (Inr pid, s3)
     \<and> truthy pid
     \<and> transport E (calls s3) (details_request pid api_key) = Inr data
     \<and> py_get data ''status'' JNull = Inr st \<and> st \<noteq> JStr ''OK''
    \<longrightarrow> place_details pid api_key E s3
           = (Inr None, s3\<lparr>calls := calls s3 @ [details_request pid api_key]\<rparr>)
       \<and> resolve_attraction a c api_key E s
           = geocode_fallback q api_key E
               (s3\<lparr>calls := calls s3 @ [details_request pid api_key]\<rparr>)
       \<and> (\<exists>r. fst (resolve_attraction a c api_key E s) = Inr r
              \<and> source r = ''geocoding_api''))
   \<and> (\<not> (find_clean_cell a = None \<and> find_clean_cell c = None)
     \<and> q' = make_query (find_clean_cell a) (find_clean_cell c)
     \<and> find_venue_with_places_findplace q' api_key E s = (Inr v1, t1)
     \<and> \<not> (v_status v1 = ''success'' \<and> \<not> is_low_quality_address (v_formatted_address v1))
     \<and> city_location (find_clean_cell c) api_key E t1 = (Inr loc', t2)
     \<and> find_places_text_search_place_id q' api_key E loc' 50000
          (Some ''tourist_attraction'') t2 = (Inr pid', t3)
     \<and> truthy pid'
     \<and> transport E (calls t3) (find_details_request pid' api_key) = Inr data'
     \<and> py_get data' ''status'' JNull = Inr st' \<and> st' \<noteq> JStr ''OK''
    \<longrightarrow> find_place_details pid' api_key E t3
           = (Inr None, t3\<lparr>calls := calls t3 @ [find_details_request pid' api_key]\<rparr>)
       \<and> get_venue_location a c api_key E s
           = geocode_venue q' api_key E
               (t3\<lparr>calls := calls t3 @ [find_details_request pid' api_key]\<rparr>)
       \<and> (\<exists>r. fst (get_venue_location a c api_key E s) = Inr r
              \<and> v_source r = ''geocoding_api''))"
proof (intro conjI impI)
  assume h: "\<not> (clean_cell a = None \<and> clean_cell c = None)
     \<and> q = make_query (clean_cell a) (clean_cell c)
     \<and> findplace_then_details q api_key E s = (Inr r1, s1)
     \<and> \<not> (status r1 = ''success'' \<and> \<not> is_low_quality_address (formatted_address r1))
     \<and> city_bias (clean_cell c) api_key E s1 = (Inr loc, s2)
     \<and> places_text_search_place_id q api_key E loc CITY_TEXTSEARCH_RADIUS_M
          (Some PLACES_TYPE) s2 = (Inr pid, s3)
     \<and> truthy pid
     \<and> transport E (calls s3) (details_request pid api_key) = Inr data
     \<and> py_get data ''status'' JNull = Inr st \<and> st \<noteq> JStr ''OK''"
  then show d: "place_details pid api_key E s3
           = (Inr None, s3\<lparr>calls := calls s3 @ [details_request pid api_key]\<rparr>)"
    unfolding place_details_None_iff by blast
  from h d show r: "resolve_attraction a c api_key E s
           = geocode_fallback q api_key E
               (s3\<lparr>calls := calls s3 @ [details_request pid api_key]\<rparr>)"
    using not_both_absent [of a c]
    by (auto simp: resolve_attraction_def bind_io_apply Let_def)
  show "\<exists>r. fst (resolve_attraction a c api_key E s) = Inr r \<and> source r = ''geocoding_api''"
    using geocode_fallback_returns
            [of q api_key E "s3\<lparr>calls := calls s3 @ [details_request pid api_key]\<rparr>"]
    unfolding r by auto
next
  assume h: "\<not> (find_clean_cell a = None \<and> find_clean_cell c = None)
     \<and> q' = make_query (find_clean_cell a) (find_clean_cell c)
     \<and> find_venue_with_places_findplace q' api_key E s = (Inr v1, t1)
     \<and> \<not> (v_status v1 = ''success'' \<and> \<not> is_low_quality_address (v_formatted_address v1))
     \<and> city_location (find_clean_cell c) api_key E t1 = (Inr loc', t2)
     \<and> find_places_text_search_place_id q' api_key E loc' 50000
          (Some ''tourist_attraction'') t2 = (Inr pid', t3)
     \<and> truthy pid'
     \<and> transport E (calls t3) (find_details_request pid' api_key) = Inr data'
     \<and> py_get data' ''status'' JNull = Inr st' \<and> st' \<noteq> JStr ''OK''"
  then show d: "find_place_details pid' api_key E t3
           = (Inr None, t3\<lparr>calls := calls t3 @ [find_details_request pid' api_key]\<rparr>)"
    unfolding find_place_details_None_iff by blast
  from h d show r: "get_venue_location a c api_key E s
           = geocode_venue q' api_key E
               (t3\<lparr>calls := calls t3 @ [find_details_request pid' api_key]\<rparr>)"
    using not_both_absent [of a c]
    by (auto simp: get_venue_location_def bind_io_apply Let_def find_clean_cell_eq)
  show "\<exists>r. fst (get_venue_location a c api_key E s) = Inr r \<and> v_source r = ''geocoding_api''"
    using geocode_venue_returns
            [of q' api_key E "t3\<lparr>calls := calls t3 @ [find_details_request pid' api_key]\<rparr>"]
    unfolding r by auto
qed


theorem failed_details_falls_back_witness:
  "fst (resolve_attraction (CStr ''Louvre'') (CStr ''Paris'') ''k''
         (example_env (by_endpoint (Inr zero_results) (Inr zero_results)
            (Inr one_search_result) (Inr geocoded_city))) fresh)
     = Inr \<lparr>latitude = JFloat 48, longitude = JFloat 2,
            formatted_address = JStr ''Paris, France'', resolved_name = JNull,
            status = ''success'', source = ''geocoding_api'', place_id = JNull\<rparr>
   \<and> calls (snd (resolve_attraction (CStr ''Louvre'') (CStr ''Paris'') ''k''
         (example_env (by_endpoint (Inr zero_results) (Inr zero_results)
            (Inr one_search_result) (Inr geocoded_city))) fresh))
     = [findplace_request ''Louvre, Paris'' ''k'',
        geocode_request ''Paris'' ''k'',
        textsearch_request ''Louvre, Paris'' ''k'' (Some ''<value>,<value>'') 50000
          (Some ''tourist_attraction''),
        details_request (JStr ''p2'') ''k'',
        geocode_request ''Louvre, Paris'' ''k'']
   \<and> fst (get_venue_location (CStr ''Louvre'') (CStr ''Paris'') ''k''
         (example_env (by_endpoint (Inr zero_results) (Inr zero_results)
            (Inr one_search_result) (Inr geocoded_city))) fresh)
     = Inr \<lparr>v_latitude = JFloat 48, v_longitude = JFloat 2,
            v_formatted_address = JStr ''Paris, France'', venue_name = JNull,
            v_status = ''success'', v_source = ''geocoding_api''\<rparr>"
proof -
  let ?E = "example_env (by_endpoint (Inr zero_results) (Inr zero_results)
            (Inr one_search_result) (Inr geocoded_city))"
  let ?q = "''Louvre, Paris''"
  let ?fp = "findplace_request ?q ''k''"
  let ?fp' = "find_findplace_request ?q ''k''"
  let ?gc = "geocode_request ''Paris'' ''k''"
  let ?loc = "Some ''<value>,<value>''"
  let ?ts = "textsearch_request ?q ''k'' ?loc 50000 (Some ''tourist_attraction'')"
  let ?dt = "details_request (JStr ''p2'') ''k''"
  let ?dt' = "find_details_request (JStr ''p2'') ''k''"
  let ?r1 = "failure_result ''not_found_in_places:ZERO_RESULTS'' ''places_findplace''"
  let ?v1 = "venue_failure ''not_found_in_places:ZERO_RESULTS'' ''places_findplace''"
  let ?cache = "[''Paris'' \<mapsto> (48::real, 2::real)]"
  have c: "clean_cell (CStr ''Louvre'') = Some ''Louvre''"
          "clean_cell (CStr ''Paris'') = Some ''Paris''"
          "make_query (Some ''Louvre'') (Some ''Paris'') = ?q"
    by (simp_all add: io_eval)
  have l: "status ?r1 \<noteq> ''success''" "v_status ?v1 \<noteq> ''success''"
          "truthy (JStr ''p2'')"
          "py_get zero_results ''status'' JNull = Inr (JStr ''ZERO_RESULTS'')"
          "JStr ''ZERO_RESULTS'' \<noteq> JStr ''OK''"
    by (simp_all add: failure_result_def venue_failure_def zero_results_def)
  have e1: "findplace_then_details ?q ''k'' ?E fresh = (Inr ?r1, fresh\<lparr>calls := [?fp]\<rparr>)"
    by (simp add: io_eval adapters_eval example_eval)
  have e2: "city_bias (Some ''Paris'') ''k'' ?E (fresh\<lparr>calls := [?fp]\<rparr>)
              = (Inr ?loc, \<lparr>calls = [?fp, ?gc], city_cache = ?cache\<rparr>)"
    by (simp add: io_eval adapters_eval example_eval)
  have e3: "places_text_search_place_id ?q ''k'' ?E ?loc CITY_TEXTSEARCH_RADIUS_M
              (Some PLACES_TYPE) \<lparr>calls = [?fp, ?gc], city_cache = ?cache\<rparr>
              = (Inr (JStr ''p2''), \<lparr>calls = [?fp, ?gc, ?ts], city_cache = ?cache\<rparr>)"
    by (simp add: io_eval adapters_eval example_eval)
  have e4: "transport ?E [?fp, ?gc, ?ts] ?dt = Inr zero_results"
    by (simp add: adapters_eval example_eval)
  have e5: "geocode_fallback ?q ''k'' ?E \<lparr>calls = [?fp, ?gc, ?ts, ?dt], city_cache = ?cache\<rparr>
              = (Inr \<lparr>latitude = JFloat 48, longitude = JFloat 2,
                  formatted_address = JStr ''Paris, France'', resolved_name = JNull,
                  status = ''success'', source = ''geocoding_api'', place_id = JNull\<rparr>,
                 \<lparr>calls = [?fp, ?gc, ?ts, ?dt, geocode_request ?q ''k''],
                  city_cache = ?cache\<rparr>)"
    by (simp add: io_eval adapters_eval example_eval)
  have g1: "find_venue_with_places_findplace ?q ''k'' ?E fresh
              = (Inr ?v1, fresh\<lparr>calls := [?fp']\<rparr>)"
    by (simp add: io_eval find_eval example_eval)
  have g2: "city_location (Some ''Paris'') ''k'' ?E (fresh\<lparr>calls := [?fp']\<rparr>)
              = (Inr ?loc, fresh\<lparr>calls := [?fp', ?gc]\<rparr>)"
    by (simp add: io_eval find_eval example_eval)
  have g3: "find_places_text_search_place_id ?q ''k'' ?E ?loc 50000
              (Some ''tourist_attraction'') (fresh\<lparr>calls := [?fp', ?gc]\<rparr>)
              = (Inr (JStr ''p2''), fresh\<lparr>calls := [?fp', ?gc, ?ts]\<rparr>)"
    by (simp add: io_eval find_eval example_eval)
  have g4: "transport ?E [?fp', ?gc, ?ts] ?dt' = Inr zero_results"
    by (simp add: find_eval example_eval)
  have g5: "fst (geocode_venue ?q ''k'' ?E (fresh\<lparr>calls := [?fp', ?gc, ?ts, ?dt']\<rparr>))
              = Inr \<lparr>v_latitude = JFloat 48, v_longitude = JFloat 2,
                  v_formatted_address = JStr ''Paris, France'', venue_name = JNull,
                  v_status = ''success'', v_source = ''geocoding_api''\<rparr>"
    by (simp add: io_eval find_eval example_eval)
  have a: "resolve_attraction (CStr ''Louvre'') (CStr ''Paris'') ''k'' ?E fresh
             = geocode_fallback ?q ''k'' ?E
                 \<lparr>calls = [?fp, ?gc, ?ts, ?dt], city_cache = ?cache\<rparr>"
    using failed_details_falls_back [where a = "CStr ''Louvre''" and c = "CStr ''Paris''"
            and q = ?q and api_key = "''k''" and E = ?E and s = fresh and ?r1.0 = ?r1
            and ?s1.0 = "fresh\<lparr>calls := [?fp]\<rparr>" and loc = ?loc
            and ?s2.0 = "\<lparr>calls = [?fp, ?gc], city_cache = ?cache\<rparr>"
            and pid = "JStr ''p2''"
            and ?s3.0 = "\<lparr>calls = [?fp, ?gc, ?ts], city_cache = ?cache\<rparr>"
            and data = zero_results and st = "JStr ''ZERO_RESULTS''"]
          c l e1 e2 e3 e4
    by simp
  have b: "get_venue_location (CStr ''Louvre'') (CStr ''Paris'') ''k'' ?E fresh
             = geocode_venue ?q ''k'' ?E (fresh\<lparr>calls := [?fp', ?gc, ?ts, ?dt']\<rparr>)"
    using failed_details_falls_back [where a = "CStr ''Louvre''" and c = "CStr ''Paris''"
            and q' = ?q and api_key = "''k''" and E = ?E and s = fresh and ?v1.0 = ?v1
            and ?t1.0 = "fresh\<lparr>calls := [?fp']\<rparr>" and loc' = ?loc
            and ?t2.0 = "fresh\<lparr>calls := [?fp', ?gc]\<rparr>"
            and pid' = "JStr ''p2''"
            and ?t3.0 = "fresh\<lparr>calls := [?fp', ?gc, ?ts]\<rparr>"
            and data' = zero_results and st' = "JStr ''ZERO_RESULTS''"]
          c l g1 g2 g3 g4
    by (simp add: find_clean_cell_eq fresh_def)
  show ?thesis
    unfolding a b using e5 g5 by simp
qed


subsection \<open>Failures of the transport\<close>

text \<open>
  C1. The resolver is claimed never to raise. Tier 1 and tier 3 do catch what the
  transport raises (\<open>findplace_returns\<close>, \<open>geocode_fallback_returns\<close>), but the text
  search of tier 2 is called outside any \<open>try\<close>: when the text-search request times
  out, the exception leaves \<open>resolve_attraction\<close> and \<open>get_venue_location\<close>, and no
  result record is returned.
\<close>

theorem text_search_failure_escapes:
  "resolve_attraction (CStr ''Louvre'') CNone ''k''
      (example_env (by_endpoint (Inr zero_results) (Inr zero_results)
         (Inl (TransportError ''timed out'')) (Inr zero_results))) fresh
     = (Inl (TransportError ''timed out''),
        fresh\<lparr>calls := [findplace_request ''Louvre'' ''k'',
                          textsearch_request ''Louvre'' ''k'' None 50000
                            (Some ''tourist_attraction'')]\<rparr>)
   \<and> get_venue_location (CStr ''Louvre'') CNone ''k''
      (example_env (by_endpoint (Inr zero_results) (Inr zero_results)
         (Inl (TransportError ''timed out'')) (Inr zero_results))) fresh
     = (Inl (TransportError ''timed out''),
        fresh\<lparr>calls := [find_findplace_request ''Louvre'' ''k'',
                          textsearch_request ''Louvre'' ''k'' None 50000
                            (Some ''tourist_attraction'')]\<rparr>)"
  by (simp add: resolve_attraction_def get_venue_location_def io_eval adapters_eval
                find_eval example_eval)


subsection \<open>Coordinates and status\<close>

lemma numeric_providerD:
  "numeric_provider E \<Longrightarrow> transport E h rq = Inr data \<Longrightarrow> numeric_locations data"
  by (auto simp: numeric_provider_def)

lemma place_details_coordinates:
  assumes "place_details pid key E s = (Inr (Some d), s')"
  shows "status d = ''success'' \<and> (numeric_provider E \<longrightarrow> coordinates_match_status d)"
  using assms
  by (auto simp: place_details_def bind_io_http bind_e_def coordinates_match_status_def
                 numeric_locations_def details_location_def numeric_pair_def
           split: sum.splits if_splits dest!: numeric_providerD)

lemma find_place_details_coordinates:
  assumes "find_place_details pid key E s = (Inr (Some d), s')"
  shows "v_status d = ''success''
         \<and> (numeric_provider E \<longrightarrow> venue_coordinates_match_status d)"
  using assms
  by (auto simp: find_place_details_def bind_io_http bind_e_def
                 venue_coordinates_match_status_def
                 numeric_locations_def details_location_def numeric_pair_def
           split: sum.splits if_splits dest!: numeric_providerD)

lemma geocode_fallback_coordinates:
  assumes "geocode_fallback q key E s = (Inr r, s')"
  shows "absent_unless_success r \<and> (numeric_provider E \<longrightarrow> coordinates_match_status r)"
  using assms
  by (auto simp: geocode_fallback_def try_except_apply bind_io_http bind_io_lift bind_e_def
                 failure_result_def coordinates_match_status_def absent_unless_success_def
                 numeric_locations_def geocode_location_def numeric_pair_def
           split: sum.splits if_splits dest!: numeric_providerD)

lemma geocode_venue_coordinates:
  assumes "geocode_venue q key E s = (Inr r, s')"
  shows "venue_absent_unless_success r
         \<and> (numeric_provider E \<longrightarrow> venue_coordinates_match_status r)"
  using assms
  by (auto simp: geocode_venue_def try_except_apply bind_io_http bind_io_lift bind_e_def
                 venue_failure_def venue_coordinates_match_status_def
                 venue_absent_unless_success_def
                 numeric_locations_def geocode_location_def numeric_pair_def
           split: sum.splits if_splits dest!: numeric_providerD)

lemma findplace_coordinates:
  assumes "findplace_then_details q key E s = (Inr r, s')"
  shows "absent_unless_success r \<and> (numeric_provider E \<longrightarrow> coordinates_match_status r)"
  using assms
  apply (simp add: findplace_then_details_def try_except_apply bind_io_http bind_io_lift
                   Let_def)
  apply (auto simp: bind_e_def failure_result_def bind_io_apply coordinates_match_status_def
                    absent_unless_success_def
              split: sum.splits if_splits option.splits prod.splits
              dest!: place_details_coordinates)
  done

lemma find_findplace_coordinates:
  assumes "find_venue_with_places_findplace q key E s = (Inr r, s')"
  shows "venue_absent_unless_success r
         \<and> (numeric_provider E \<longrightarrow> venue_coordinates_match_status r)"
  using assms
  apply (simp add: find_venue_with_places_findplace_def try_except_apply bind_io_http
                   bind_io_lift Let_def)
  apply (auto simp: bind_e_def venue_failure_def bind_io_apply
                    venue_coordinates_match_status_def venue_absent_unless_success_def
              split: sum.splits if_splits option.splits prod.splits
              dest!: find_place_details_coordinates)
  done

lemma resolve_attraction_provenance:
  assumes "resolve_attraction a c key E s = (Inr r, s')"
  shows "r = failure_result ''skipped-empty'' ''none''
       \<or> (\<exists>q s0 s1. findplace_then_details q key E s0 = (Inr r, s1))
       \<or> (\<exists>pid s0 s1 d src. place_details pid key E s0 = (Inr (Some d), s1)
              \<and> r = d\<lparr>source := src\<rparr>)
       \<or> (\<exists>q s0 s1. geocode_fallback q key E s0 = (Inr r, s1))"
  using assms
  apply (simp add: resolve_attraction_def bind_io_apply Let_def
        split: if_splits prod.splits sum.splits option.splits)
         apply blast+
  done

lemma get_venue_location_provenance:
  assumes "get_venue_location a c key E s = (Inr r, s')"
  shows "r = venue_failure ''skipped-empty'' ''none''
       \<or> (\<exists>q s0 s1. find_venue_with_places_findplace q key E s0 = (Inr r, s1))
       \<or> (\<exists>pid s0 s1 d src. find_place_details pid key E s0 = (Inr (Some d), s1)
              \<and> r = d\<lparr>v_source := src\<rparr>)
       \<or> (\<exists>q s0 s1. geocode_venue q key E s0 = (Inr r, s1))"
  using assms
  apply (simp add: get_venue_location_def bind_io_apply Let_def
        split: if_splits prod.splits sum.splits option.splits)
         apply blast+
  done

lemma resolve_attraction_coordinates:
  assumes "resolve_attraction a c key E s = (Inr r, s')"
  shows "absent_unless_success r \<and> (numeric_provider E \<longrightarrow> coordinates_match_status r)"
  using resolve_attraction_provenance [OF assms]
proof (elim disjE exE conjE)
  assume "r = failure_result ''skipped-empty'' ''none''"
  then show ?thesis
    by (simp add: failure_result_def absent_unless_success_def coordinates_match_status_def)
next
  fix q s0 s1 assume "findplace_then_details q key E s0 = (Inr r, s1)"
  then show ?thesis by (rule findplace_coordinates)
next
  fix pid s0 s1 d src
  assume "place_details pid key E s0 = (Inr (Some d), s1)" and r: "r = d\<lparr>source := src\<rparr>"
  from place_details_coordinates [OF this(1)] show ?thesis
    by (simp add: r absent_unless_success_def coordinates_match_status_def)
next
  fix q s0 s1 assume "geocode_fallback q key E s0 = (Inr r, s1)"
  then show ?thesis by (rule geocode_fallback_coordinates)
qed

lemma get_venue_location_coordinates:
  assumes "get_venue_location a c key E s = (Inr r, s')"
  shows "venue_absent_unless_success r
         \<and> (numeric_provider E \<longrightarrow> venue_coordinates_match_status r)"
  using get_venue_location_provenance [OF assms]
proof (elim disjE exE conjE)
  assume "r = venue_failure ''skipped-empty'' ''none''"
  then show ?thesis
    by (simp add: venue_failure_def venue_absent_unless_success_def
                  venue_coordinates_match_status_def)
next
  fix q s0 s1 assume "find_venue_with_places_findplace q key E s0 = (Inr r, s1)"
  then show ?thesis by (rule find_findplace_coordinates)
next
  fix pid s0 s1 d src
  assume "find_place_details pid key E s0 = (Inr (Some d), s1)" and r: "r = d\<lparr>v_source := src\<rparr>"
  from find_place_details_coordinates [OF this(1)] show ?thesis
    by (simp add: r venue_absent_unless_success_def venue_coordinates_match_status_def)
next
  fix q s0 s1 assume "geocode_venue q key E s0 = (Inr r, s1)"
  then show ?thesis by (rule geocode_venue_coordinates)
qed


lemma place_details_copies:
  assumes "place_details pid key E s = (Inr (Some r), s')"
  shows "copied_coordinates (transport E (calls s) (details_request pid key))
           details_location (latitude r) (longitude r)"
  using assms
  by (auto simp: place_details_def bind_io_http bind_e_def copied_coordinates_def
                 details_location_def
           split: sum.splits if_splits)

lemma find_place_details_copies:
  assumes "find_place_details pid key E s = (Inr (Some r), s')"
  shows "copied_coordinates (transport E (calls s) (find_details_request pid key))
           details_location (v_latitude r) (v_longitude r)"
  using assms
  by (auto simp: find_place_details_def bind_io_http bind_e_def copied_coordinates_def
                 details_location_def
           split: sum.splits if_splits)

lemma geocode_fallback_copies:
  assumes "geocode_fallback q key E s = (Inr r, s')" and "status r = ''success''"
  shows "copied_coordinates (transport E (calls s) (geocode_request q key))
           geocode_location (latitude r) (longitude r)"
  using assms
  by (auto simp: geocode_fallback_def try_except_apply bind_io_http bind_io_lift bind_e_def
                 failure_result_def copied_coordinates_def geocode_location_def
           split: sum.splits if_splits)

lemma geocode_venue_copies:
  assumes "geocode_venue q key E s = (Inr r, s')" and "v_status r = ''success''"
  shows "copied_coordinates (transport E (calls s) (geocode_request q key))
           geocode_location (v_latitude r) (v_longitude r)"
  using assms
  by (auto simp: geocode_venue_def try_except_apply bind_io_http bind_io_lift bind_e_def
                 venue_failure_def copied_coordinates_def geocode_location_def
           split: sum.splits if_splits)

lemma findplace_copies:
  assumes "findplace_then_details q key E s = (Inr r, s')" and "status r = ''success''"
  shows "copied_coordinates
           (transport E (calls s @ [findplace_request q key])
              (details_request (place_id r) key))
           details_location (latitude r) (longitude r)"
  using assms
  apply (simp add: findplace_then_details_def try_except_apply bind_io_http bind_io_lift
                   Let_def)
  apply (auto simp: bind_e_def failure_result_def bind_io_apply
              split: sum.splits if_splits option.splits prod.splits)
  apply (frule place_details_copies)
  apply (drule place_details_D)
  apply auto
  done


lemma find_findplace_copies:
  assumes "find_venue_with_places_findplace q key E s = (Inr r, s')"
    and "v_status r = ''success''"
  shows "\<exists>pid. calls s' = calls s @ [find_findplace_request q key, find_details_request pid key]
           \<and> copied_coordinates
                (transport E (calls s @ [find_findplace_request q key])
                   (find_details_request pid key))
                details_location (v_latitude r) (v_longitude r)"
  using assms
  apply (simp add: find_venue_with_places_findplace_def try_except_apply bind_io_http
                   bind_io_lift Let_def)
  apply (auto simp: bind_e_def venue_failure_def bind_io_apply
              split: sum.splits if_splits option.splits prod.splits)
  apply (frule find_place_details_copies)
  apply (drule find_place_details_D)
  apply auto
  done

lemma resolve_attraction_origin:
  assumes "resolve_attraction a c key E s = (Inr r, s')"
  shows "r = failure_result ''skipped-empty'' ''none''
       \<or> findplace_then_details (make_query (clean_cell a) (clean_cell c)) key E s
            = (Inr r, s')
       \<or> (\<exists>pid s0 d src. place_details pid key E s0 = (Inr (Some d), s')
              \<and> r = d\<lparr>source := src\<rparr>)
       \<or> (\<exists>s0. geocode_fallback (make_query (clean_cell a) (clean_cell c)) key E s0
                   = (Inr r, s'))"
  using assms
  apply (simp add: resolve_attraction_def bind_io_apply Let_def
        split: if_splits prod.splits sum.splits option.splits)
         apply blast+
  done

lemma get_venue_location_origin:
  assumes "get_venue_location a c key E s = (Inr r, s')"
  shows "r = venue_failure ''skipped-empty'' ''none''
       \<or> find_venue_with_places_findplace
            (make_query (find_clean_cell a) (find_clean_cell c)) key E s = (Inr r, s')
       \<or> (\<exists>pid s0 d src. find_place_details pid key E s0 = (Inr (Some d), s')
              \<and> r = d\<lparr>v_source := src\<rparr>)
       \<or> (\<exists>s0. geocode_venue (make_query (find_clean_cell a) (find_clean_cell c)) key E s0
                   = (Inr r, s'))"
  using assms
  apply (simp add: get_venue_location_def bind_io_apply Let_def
        split: if_splits prod.splits sum.splits option.splits)
         apply blast+
  done

lemma resolve_attraction_copies:
  assumes "resolve_attraction a c key E s = (Inr r, s')" and ok: "status r = ''success''"
  shows "calls s' \<noteq> []
       \<and> ((\<exists>pid. last (calls s') = details_request pid key)
             \<and> copied_coordinates (last_answer E s') details_location
                  (latitude r) (longitude r)
           \<or> last (calls s') = geocode_request (make_query (clean_cell a) (clean_cell c)) key
             \<and> copied_coordinates (last_answer E s') geocode_location
                  (latitude r) (longitude r))"
  using resolve_attraction_origin [OF assms(1)]
proof (elim disjE exE conjE)
  assume "r = failure_result ''skipped-empty'' ''none''"
  with ok show ?thesis by (simp add: failure_result_def)
next
  let ?q = "make_query (clean_cell a) (clean_cell c)"
  assume f: "findplace_then_details ?q key E s = (Inr r, s')"
  from findplace_returns [of ?q key E s] f ok
  have l: "calls s' = calls s @ [findplace_request ?q key, details_request (place_id r) key]"
    by auto
  then have b: "butlast (calls s') = calls s @ [findplace_request ?q key]"
    by (simp add: butlast_append)
  from findplace_copies [OF f ok] l b show ?thesis
    by (auto simp: last_answer_def)
next
  fix pid s0 d src
  assume p: "place_details pid key E s0 = (Inr (Some d), s')" and r: "r = d\<lparr>source := src\<rparr>"
  from place_details_D [OF p]
  have l: "calls s' = calls s0 @ [details_request pid key]" by simp
  from place_details_copies [OF p] l r show ?thesis
    by (auto simp: last_answer_def)
next
  let ?q = "make_query (clean_cell a) (clean_cell c)"
  fix s0 assume g: "geocode_fallback ?q key E s0 = (Inr r, s')"
  from geocode_fallback_returns [of ?q key E s0] g
  have l: "calls s' = calls s0 @ [geocode_request ?q key]" by auto
  from geocode_fallback_copies [OF g ok] l show ?thesis
    by (auto simp: last_answer_def)
qed

lemma get_venue_location_copies:
  assumes "get_venue_location a c key E s = (Inr r, s')" and ok: "v_status r = ''success''"
  shows "calls s' \<noteq> []
       \<and> ((\<exists>pid. last (calls s') = find_details_request pid key)
             \<and> copied_coordinates (last_answer E s') details_location
                  (v_latitude r) (v_longitude r)
           \<or> last (calls s')
               = geocode_request (make_query (find_clean_cell a) (find_clean_cell c)) key
             \<and> copied_coordinates (last_answer E s') geocode_location
                  (v_latitude r) (v_longitude r))"
  using get_venue_location_origin [OF assms(1)]
proof (elim disjE exE conjE)
  assume "r = venue_failure ''skipped-empty'' ''none''"
  with ok show ?thesis by (simp add: venue_failure_def)
next
  let ?q = "make_query (find_clean_cell a) (find_clean_cell c)"
  assume f: "find_venue_with_places_findplace ?q key E s = (Inr r, s')"
  from find_findplace_copies [OF f ok] obtain pid where
    l: "calls s' = calls s @ [find_findplace_request ?q key, find_details_request pid key]"
    and c: "copied_coordinates
                (transport E (calls s @ [find_findplace_request ?q key])
                   (find_details_request pid key))
                details_location (v_latitude r) (v_longitude r)"
    by blast
  from l have b: "butlast (calls s') = calls s @ [find_findplace_request ?q key]"
    by (simp add: butlast_append)
  from c l b show ?thesis
    by (auto simp: last_answer_def)
next
  fix pid s0 d src
  assume p: "find_place_details pid key E s0 = (Inr (Some d), s')"
    and r: "r = d\<lparr>v_source := src\<rparr>"
  from find_place_details_D [OF p]
  have l: "calls s' = calls s0 @ [find_details_request pid key]" by simp
  from find_place_details_copies [OF p] l r show ?thesis
    by (auto simp: last_answer_def)
next
  let ?q = "make_query (find_clean_cell a) (find_clean_cell c)"
  fix s0 assume g: "geocode_venue ?q key E s0 = (Inr r, s')"
  from geocode_venue_returns [of ?q key E s0] g
  have l: "calls s' = calls s0 @ [geocode_request ?q key]" by auto
  from geocode_venue_copies [OF g ok] l show ?thesis
    by (auto simp: last_answer_def)
qed

lemma copied_coordinates_omitted:
  assumes "copied_coordinates (Inr data) locate lat lng"
    and "locate data = Inr (JObj kvs)"
  shows "(map_of kvs ''lat'' = None \<longrightarrow> lat = JNull)
       \<and> (map_of kvs ''lng'' = None \<longrightarrow> lng = JNull)
       \<and> (\<forall>v. map_of kvs ''lat'' = Some v \<longrightarrow> lat = v)
       \<and> (\<forall>v. map_of kvs ''lng'' = Some v \<longrightarrow> lng = v)"
  using assms by (auto simp: copied_coordinates_def)

text \<open>
  C2, as the specification states it, fails: the adapters copy \<open>lat\<close> and \<open>lng\<close> from
  the provider's \<open>location\<close> object with \<open>.get\<close> and never look at them, so an "OK"
  response whose location lacks them yields status "success" with both coordinates
  \<open>None\<close>, from \<open>place_details\<close> and from \<open>resolve_attraction\<close>.
\<close>

theorem success_without_coordinates:
  "fst (resolve_attraction (CStr ''Louvre'') (CStr ''Paris'') ''k''
         (example_env (by_endpoint (Inr one_candidate) (Inr details_without_coordinates)
            (Inr zero_results) (Inr zero_results))) fresh)
     = Inr \<lparr>latitude = JNull, longitude = JNull,
            formatted_address = JStr ''99 Rue de Rivoli, Paris'',
            resolved_name = JStr ''Louvre'', status = ''success'',
            source = ''places_findplace'', place_id = JStr ''p1''\<rparr>
   \<and> \<not> coordinates_match_status
         \<lparr>latitude = JNull, longitude = JNull,
          formatted_address = JStr ''99 Rue de Rivoli, Paris'',
          resolved_name = JStr ''Louvre'', status = ''success'',
          source = ''places_findplace'', place_id = JStr ''p1''\<rparr>
   \<and> fst (place_details (JStr ''p1'') ''k''
         (example_env (by_endpoint (Inr one_candidate) (Inr details_without_coordinates)
            (Inr zero_results) (Inr zero_results))) fresh)
     = Inr (Some \<lparr>latitude = JNull, longitude = JNull,
            formatted_address = JStr ''99 Rue de Rivoli, Paris'',
            resolved_name = JStr ''Louvre'', status = ''success'',
            source = ''places_details'', place_id = JStr ''p1''\<rparr>)"
  by (simp add: resolve_attraction_def io_eval adapters_eval example_eval
                coordinates_match_status_def)

text \<open>
  C2, amended. For every record returned by an adapter (\<open>place_details\<close>,
  \<open>findplace_then_details\<close>, \<open>geocode_fallback\<close> and their find.py counterparts) or by a
  resolver:
  \<^item> a status other than "success" goes with both coordinates absent;
  \<^item> with status "success", latitude and longitude are what \<open>.get("lat")\<close> and
    \<open>.get("lng")\<close> read in the location object of the provider's answer: the answer to
    the adapter's details or geocoding request, which for a resolver is the last request
    it sent. They are copied as they are, so a key that the object lacks gives \<open>None\<close>
    and a key it has gives its value;
  \<^item> hence, when every location object the provider serves carries numbers under
    \<open>lat\<close> and \<open>lng\<close>, status "success" goes with a numeric latitude and longitude.
\<close>

theorem coordinates_follow_the_provider:
  "(place_details pid api_key E s = (Inr (Some r), s')
      \<longrightarrow> status r = ''success''
          \<and> copied_coordinates (transport E (calls s) (details_request pid api_key))
                details_location (latitude r) (longitude r)
          \<and> (numeric_provider E \<longrightarrow> coordinates_match_status r))
   \<and> (findplace_then_details q api_key E s = (Inr r, s')
      \<longrightarrow> absent_unless_success r
          \<and> (status r = ''success'' \<longrightarrow>
                copied_coordinates
                  (transport E (calls s @ [findplace_request q api_key])
                     (details_request (place_id r) api_key))
                  details_location (latitude r) (longitude r))
          \<and> (numeric_provider E \<longrightarrow> coordinates_match_status r))
   \<and> (geocode_fallback q api_key E s = (Inr r, s')
      \<longrightarrow> absent_unless_success r
          \<and> (status r = ''success'' \<longrightarrow>
                copied_coordinates (transport E (calls s) (geocode_request q api_key))
                  geocode_location (latitude r) (longitude r))
          \<and> (numeric_provider E \<longrightarrow> coordinates_match_status r))
   \<and> (resolve_attraction a c api_key E s = (Inr r, s')
      \<longrightarrow> absent_unless_success r
          \<and> (status r = ''success'' \<longrightarrow>
                calls s' \<noteq> []
                \<and> ((\<exists>p. last (calls s') = details_request p api_key)
                      \<and> copied_coordinates (last_answer E s') details_location
                           (latitude r) (longitude r)
                    \<or> last (calls s')
                        = geocode_request (make_query (clean_cell a) (clean_cell c)) api_key
                      \<and> copied_coordinates (last_answer E s') geocode_location
                           (latitude r) (longitude r)))
          \<and> (numeric_provider E \<longrightarrow> coordinates_match_status r))
   \<and> (find_place_details pid api_key E s = (Inr (Some v), s')
      \<longrightarrow> v_status v = ''success''
          \<and> copied_coordinates (transport E (calls s) (find_details_request pid api_key))
                details_location (v_latitude v) (v_longitude v)
          \<and> (numeric_provider E \<longrightarrow> venue_coordinates_match_status v))
   \<and> (find_venue_with_places_findplace q api_key E s = (Inr v, s')
      \<longrightarrow> venue_absent_unless_success v
          \<and> (v_status v = ''success'' \<longrightarrow>
                (\<exists>p. calls s' = calls s @ [find_findplace_request q api_key,
                                           find_details_request p api_key]
                   \<and> copied_coordinates
                        (transport E (calls s @ [find_findplace_request q api_key])
                           (find_details_request p api_key))
                        details_location (v_latitude v) (v_longitude v)))
          \<and> (numeric_provider E \<longrightarrow> venue_coordinates_match_status v))
   \<and> (geocode_venue q api_key E s = (Inr v, s')
      \<longrightarrow> venue_absent_unless_success v
          \<and> (v_status v = ''success'' \<longrightarrow>
                copied_coordinates (transport E (calls s) (geocode_request q api_key))
                  geocode_location (v_latitude v) (v_longitude v))
          \<and> (numeric_provider E \<longrightarrow> venue_coordinates_match_status v))
   \<and> (get_venue_location a c api_key E s = (Inr v, s')
      \<longrightarrow> venue_absent_unless_success v
          \<and> (v_status v = ''success'' \<longrightarrow>
                calls s' \<noteq> []
                \<and> ((\<exists>p. last (calls s') = find_details_request p api_key)
                      \<and> copied_coordinates (last_answer E s') details_location
                           (v_latitude v) (v_longitude v)
                    \<or> last (calls s')
                        = geocode_request
                            (make_query (find_clean_cell a) (find_clean_cell c)) api_key
                      \<and> copied_coordinates (last_answer E s') geocode_location
                           (v_latitude v) (v_longitude v)))
          \<and> (numeric_provider E \<longrightarrow> venue_coordinates_match_status v))
   \<and> (copied_coordinates (Inr data) locate lat lng \<and> locate data = Inr (JObj kvs)
      \<longrightarrow> (map_of kvs ''lat'' = None \<longrightarrow> lat = JNull)
          \<and> (map_of kvs ''lng'' = None \<longrightarrow> lng = JNull)
          \<and> (\<forall>x. map_of kvs ''lat'' = Some x \<longrightarrow> lat = x)
          \<and> (\<forall>x. map_of kvs ''lng'' = Some x \<longrightarrow> lng = x))"
proof (intro conjI)
  show "place_details pid api_key E s = (Inr (Some r), s')
      \<longrightarrow> status r = ''success''
          \<and> copied_coordinates (transport E (calls s) (details_request pid api_key))
                details_location (latitude r) (longitude r)
          \<and> (numeric_provider E \<longrightarrow> coordinates_match_status r)"
    using place_details_coordinates [of pid api_key E s r s']
          place_details_copies [of pid api_key E s r s']
    by blast
  show "findplace_then_details q api_key E s = (Inr r, s')
      \<longrightarrow> absent_unless_success r
          \<and> (status r = ''success'' \<longrightarrow>
                copied_coordinates
                  (transport E (calls s @ [findplace_request q api_key])
                     (details_request (place_id r) api_key))
                  details_location (latitude r) (longitude r))
          \<and> (numeric_provider E \<longrightarrow> coordinates_match_status r)"
    using findplace_coordinates [of q api_key E s r s']
          findplace_copies [of q api_key E s r s']
    by blast
  show "geocode_fallback q api_key E s = (Inr r, s')
      \<longrightarrow> absent_unless_success r
          \<and> (status r = ''success'' \<longrightarrow>
                copied_coordinates (transport E (calls s) (geocode_request q api_key))
                  geocode_location (latitude r) (longitude r))
          \<and> (numeric_provider E \<longrightarrow> coordinates_match_status r)"
    using geocode_fallback_coordinates [of q api_key E s r s']
          geocode_fallback_copies [of q api_key E s r s']
    by blast
  show "resolve_attraction a c api_key E s = (Inr r, s')
      \<longrightarrow> absent_unless_success r
          \<and> (status r = ''success'' \<longrightarrow>
                calls s' \<noteq> []
                \<and> ((\<exists>p. last (calls s') = details_request p api_key)
                      \<and> copied_coordinates (last_answer E s') details_location
                           (latitude r) (longitude r)
                    \<or> last (calls s')
                        = geocode_request (make_query (clean_cell a) (clean_cell c)) api_key
                      \<and> copied_coordinates (last_answer E s') geocode_location
                           (latitude r) (longitude r)))
          \<and> (numeric_provider E \<longrightarrow> coordinates_match_status r)"
    using resolve_attraction_coordinates [of a c api_key E s r s']
          resolve_attraction_copies [of a c api_key E s r s']
    by blast
  show "find_place_details pid api_key E s = (Inr (Some v), s')
      \<longrightarrow> v_status v = ''success''
          \<and> copied_coordinates (transport E (calls s) (find_details_request pid api_key))
                details_location (v_latitude v) (v_longitude v)
          \<and> (numeric_provider E \<longrightarrow> venue_coordinates_match_status v)"
    using find_place_details_coordinates [of pid api_key E s v s']
          find_place_details_copies [of pid api_key E s v s']
    by blast
  show "find_venue_with_places_findplace q api_key E s = (Inr v, s')
      \<longrightarrow> venue_absent_unless_success v
          \<and> (v_status v = ''success'' \<longrightarrow>
                (\<exists>p. calls s' = calls s @ [find_findplace_request q api_key,
                                           find_details_request p api_key]
                   \<and> copied_coordinates
                        (transport E (calls s @ [find_findplace_request q api_key])
                           (find_details_request p api_key))
                        details_location (v_latitude v) (v_longitude v)))
          \<and> (numeric_provider E \<longrightarrow> venue_coordinates_match_status v)"
    using find_findplace_coordinates [of q api_key E s v s']
          find_findplace_copies [of q api_key E s v s']
    by blast
  show "geocode_venue q api_key E s = (Inr v, s')
      \<longrightarrow> venue_absent_unless_success v
          \<and> (v_status v = ''success'' \<longrightarrow>
                copied_coordinates (transport E (calls s) (geocode_request q api_key))
                  geocode_location (v_latitude v) (v_longitude v))
          \<and> (numeric_provider E \<longrightarrow> venue_coordinates_match_status v)"
    using geocode_venue_coordinates [of q api_key E s v s']
          geocode_venue_copies [of q api_key E s v s']
    by blast
  show "get_venue_location a c api_key E s = (Inr v, s')
      \<longrightarrow> venue_absent_unless_success v
          \<and> (v_status v = ''success'' \<longrightarrow>
                calls s' \<noteq> []
                \<and> ((\<exists>p. last (calls s') = find_details_request p api_key)
                      \<and> copied_coordinates (last_answer E s') details_location
                           (v_latitude v) (v_longitude v)
                    \<or> last (calls s')
                        = geocode_request
                            (make_query (find_clean_cell a) (find_clean_cell c)) api_key
                      \<and> copied_coordinates (last_answer E s') geocode_location
                           (v_latitude v) (v_longitude v)))
          \<and> (numeric_provider E \<longrightarrow> venue_coordinates_match_status v)"
    using get_venue_location_coordinates [of a c api_key E s v s']
          get_venue_location_copies [of a c api_key E s v s']
    by blast
  show "copied_coordinates (Inr data) locate lat lng \<and> locate data = Inr (JObj kvs)
      \<longrightarrow> (map_of kvs ''lat'' = None \<longrightarrow> lat = JNull)
          \<and> (map_of kvs ''lng'' = None \<longrightarrow> lng = JNull)
          \<and> (\<forall>x. map_of kvs ''lat'' = Some x \<longrightarrow> lat = x)
          \<and> (\<forall>x. map_of kvs ''lng'' = Some x \<longrightarrow> lng = x)"
    using copied_coordinates_omitted [of data locate lat lng kvs]
    by blast
qed

theorem coordinates_follow_the_provider_witness:
  "numeric_provider (example_env (by_endpoint (Inr one_candidate) (Inr street_details)
      (Inr zero_results) (Inr zero_results)))
   \<and> fst (resolve_attraction (CStr ''Louvre'') (CStr ''Paris'') ''k''
         (example_env (by_endpoint (Inr one_candidate) (Inr street_details)
            (Inr zero_results) (Inr zero_results))) fresh)
     = Inr \<lparr>latitude = JFloat 48, longitude = JFloat 2,
            formatted_address = JStr ''99 Rue de Rivoli, Paris'',
            resolved_name = JStr ''Louvre'', status = ''success'',
            source = ''places_findplace'', place_id = JStr ''p1''\<rparr>
   \<and> details_location street_details
     = Inr (JObj [(''lat'', JFloat 48), (''lng'', JFloat 2)])
   \<and> copied_coordinates (Inr street_details) details_location (JFloat 48) (JFloat 2)
   \<and> coordinates_match_status
         \<lparr>latitude = JFloat 48, longitude = JFloat 2,
          formatted_address = JStr ''99 Rue de Rivoli, Paris'',
          resolved_name = JStr ''Louvre'', status = ''success'',
          source = ''places_findplace'', place_id = JStr ''p1''\<rparr>
   \<and> fst (geocode_fallback ''Louvre'' ''k''
         (example_env (by_endpoint (Inr one_candidate) (Inr street_details)
            (Inr zero_results) (Inr zero_results))) fresh)
     = Inr (failure_result ''Error: ZERO_RESULTS'' ''geocoding_api'')
   \<and> absent_unless_success (failure_result ''Error: ZERO_RESULTS'' ''geocoding_api'')"
proof -
  let ?E = "example_env (by_endpoint (Inr one_candidate) (Inr street_details)
      (Inr zero_results) (Inr zero_results))"
  let ?r = "\<lparr>latitude = JFloat 48, longitude = JFloat 2,
            formatted_address = JStr ''99 Rue de Rivoli, Paris'',
            resolved_name = JStr ''Louvre'', status = ''success'',
            source = ''places_findplace'', place_id = JStr ''p1''\<rparr>"
  let ?s = "fresh\<lparr>calls := [findplace_request ''Louvre, Paris'' ''k'',
                              details_request (JStr ''p1'') ''k'']\<rparr>"
  let ?f = "failure_result ''Error: ZERO_RESULTS'' ''geocoding_api''"
  let ?t = "fresh\<lparr>calls := [geocode_request ''Louvre'' ''k'']\<rparr>"
  have n: "numeric_provider ?E"
    by (simp add: numeric_provider_def numeric_locations_def details_location_def
                  geocode_location_def numeric_pair_def bind_e_def example_eval)
  have e: "resolve_attraction (CStr ''Louvre'') (CStr ''Paris'') ''k'' ?E fresh = (Inr ?r, ?s)"
    by (simp add: resolve_attraction_def io_eval adapters_eval example_eval)
  have g: "geocode_fallback ''Louvre'' ''k'' ?E fresh = (Inr ?f, ?t)"
    by (simp add: io_eval adapters_eval example_eval)
  have a: "last_answer ?E ?s = Inr street_details"
    by (simp add: last_answer_def details_request_def findplace_request_def example_env_def
                  by_endpoint_def fresh_def)
  have d: "details_request (JStr ''p1'') ''k'' \<noteq> geocode_request ''Louvre, Paris'' ''k''"
    by (simp add: geocode_request_def details_request_def)
  have l: "last (calls ?s) = details_request (JStr ''p1'') ''k''"
    by (simp add: fresh_def)
  have m: "make_query (clean_cell (CStr ''Louvre'')) (clean_cell (CStr ''Paris''))
             = ''Louvre, Paris''"
    by (simp add: io_eval)
  have "status ?r = ''success''" by simp
  then have "copied_coordinates (last_answer ?E ?s) details_location (latitude ?r) (longitude ?r)
        \<or> last (calls ?s) = geocode_request ''Louvre, Paris'' ''k''"
    using coordinates_follow_the_provider [where a = "CStr ''Louvre''" and c = "CStr ''Paris''"
            and api_key = "''k''" and E = ?E and s = fresh and r = ?r and s' = ?s] e m
    by auto
  then have "copied_coordinates (last_answer ?E ?s) details_location (JFloat 48) (JFloat 2)"
    using d unfolding l by simp
  then have cc: "copied_coordinates (Inr street_details) details_location (JFloat 48) (JFloat 2)"
    unfolding a .
  have dl: "details_location street_details
              = Inr (JObj [(''lat'', JFloat 48), (''lng'', JFloat 2)])"
    by (simp add: details_location_def bind_e_def street_details_def point_def)
  have "coordinates_match_status ?r"
    using coordinates_follow_the_provider [where a = "CStr ''Louvre''" and c = "CStr ''Paris''"
            and api_key = "''k''" and E = ?E and s = fresh and r = ?r and s' = ?s] n e
    by blast
  moreover have "absent_unless_success ?f"
    using coordinates_follow_the_provider [where q = "''Louvre''"
            and api_key = "''k''" and E = ?E and s = fresh and r = ?f and s' = ?t] g
    by blast
  ultimately show ?thesis
    using n e g cc dl by simp
qed

subsection \<open>The city cache\<close>



lemma findplace_D:
  "findplace_then_details q key E s = (r, s') \<Longrightarrow>
     city_cache s' = city_cache s \<and> (\<exists>x. r = Inr x)
     \<and> (\<exists>ext. calls s' = calls s @ findplace_request q key # ext
            \<and> (\<forall>rq\<in>set ext. \<exists>pid. rq = details_request pid key))"
  using findplace_returns [of q key E s] by auto

lemma get_city_latlng_hit:
  "city_cache s city = Some v \<Longrightarrow> get_city_latlng city key E s = (Inr (Some v), s)"
  by (simp add: get_city_latlng_def)




lemma city_bias_hit:
  assumes "city_cache s city = Some v" and "city \<noteq> []"
  shows "\<exists>loc. city_bias (Some city) key E s = (Inr (Some loc), s)"
  using assms
  by (auto simp: city_bias_def present_def bind_io_apply get_city_latlng_hit split: prod.splits)

















end
